theory Spec2Isabelle
  imports Main "HOL-Library.Sublist" "HOL-Library.Char_ord" "HOL-Library.List_Lexorder"
    "HOL-Library.Multiset"
begin

section \<open>Go values used by the sharded database cluster resource\<close>

text \<open>
  The resource \<open>vkcs_db_cluster_with_shards\<close> (second part of
  \<^verbatim>\<open>src/vkcs/compute/data_source_flavor.go\<close>) is embedded function by function.
  A Go \<open>int\<close> is a 64-bit signed integer: it is modelled as an \<open>int\<close> on which every
  addition and subtraction the source performs is wrapped by \<open>wrap64\<close>.
  A run-time panic of the Go program is a value of type \<open>panic\<close>.
\<close>

definition wrap64 :: "int \<Rightarrow> int" where
  "wrap64 x = (x + 2 ^ 63) mod 2 ^ 64 - 2 ^ 63"

definition maxInt :: int where
  "maxInt = 2 ^ 63 - 1"

datatype panic = MakesliceLenOutOfRange | IndexOutOfRange

datatype severity = Error | Warning

record diagnostic =
  severity :: severity
  summary :: string

text \<open>\<open>diag_Error s\<close> is the value of \<open>diag.Errorf\<close> once its text \<open>s\<close> is formatted:
  a list of exactly one diagnostic of severity \<open>Error\<close>.\<close>

definition diag_Error :: "string \<Rightarrow> diagnostic list" where
  "diag_Error s = [\<lparr>severity = Error, summary = s\<rparr>]"

text \<open>What a function returns: a panic, error diagnostics, or its value.\<close>

datatype 'a outcome = Panics panic | Fails "diagnostic list" | Returns 'a

section \<open>The declared configuration (schema of the resource)\<close>

record datastore_raw =
  ds_version :: string
  ds_type :: string

record autoexpand_raw =
  autoexpand :: bool
  max_disk_size :: int

record capability_raw =
  cap_name :: string
  cap_settings :: "(string \<times> string) list"

record restore_point_raw =
  backup_id :: string

record wal_volume_raw =
  wal_size :: int
  wal_volume_type :: string

record network_raw =
  uuid :: string
  port :: string
  subnet_id :: string
  security_groups :: "string list"

record instance_raw =
  instance_id :: string
  ip :: "string list"

text \<open>One \<open>shard\<close> block. \<open>shard_size\<close> is the schema's \<open>size\<close>; \<open>wal_volume\<close> and
  \<open>network\<close> are lists of blocks, as in the schema.\<close>

record shard_raw =
  shard_id :: string
  shard_size :: int
  shrink_options :: "string list"
  flavor_id :: string
  volume_size :: int
  volume_type :: string
  wal_volume :: "wal_volume_raw list"
  network :: "network_raw list"
  availability_zone :: string
  instances :: "instance_raw list"

record cluster_config =
  cluster_name :: string
  datastore :: "datastore_raw list"
  configuration_id :: string
  floating_ip_enabled :: bool
  keypair :: string
  disk_autoexpand :: "autoexpand_raw list"
  wal_disk_autoexpand :: "autoexpand_raw list"
  capabilities :: "capability_raw list"
  restore_point :: "restore_point_raw list"
  cloud_monitoring_enabled :: bool
  shard :: "shard_raw list"

datatype timeout_key = TimeoutCreate | TimeoutRead | TimeoutUpdate | TimeoutDelete | TimeoutDefault

text \<open>
  \<open>schema.ResourceData\<close>: the id, the prior state (\<open>prior\<close>), the planned configuration
  (\<open>planned\<close>) and the timeout budgets. \<open>d.Get\<close> reads \<open>planned\<close>, \<open>d.GetChange\<close> returns
  the prior and the planned value, \<open>d.HasChange\<close> says whether the two differ, and
  \<open>d.Timeout key\<close> is \<open>timeouts d key\<close>.
\<close>

record ResourceData =
  Id :: string
  prior :: cluster_config
  planned :: cluster_config
  timeouts :: "timeout_key \<Rightarrow> nat"

section \<open>Create: from the shard blocks to the instance descriptors\<close>

record Volume =
  Size :: int
  VolumeType :: string

record WalVolume =
  WalSize :: int
  WalVolumeType :: string

record NetworkOpts =
  NetUUID :: string
  NetPort :: string
  NetSubnetID :: string

record InstanceCreateOpts =
  FlavorRef :: string
  Volume :: "Volume option"
  Nics :: "NetworkOpts list"
  SecurityGroups :: "string list"
  AvailabilityZone :: string
  Keypair :: string
  ShardID :: string
  Walvolume :: "WalVolume option"

text \<open>The zero value of the Go struct, which \<open>make\<close> fills a new slice with.\<close>

definition zero_InstanceCreateOpts :: InstanceCreateOpts where
  "zero_InstanceCreateOpts =
     \<lparr>FlavorRef = [], Volume = None, Nics = [], SecurityGroups = [],
      AvailabilityZone = [], Keypair = [], ShardID = [], Walvolume = None\<rparr>"

record CreateOpts =
  Name :: string
  Datastore :: "datastore_raw option"
  FloatingIPEnabled :: bool
  CloudMonitoringEnabled :: bool
  AutoExpand :: int
  MaxDiskSize :: int
  WalAutoExpand :: int
  WalMaxDiskSize :: int
  Instances :: "InstanceCreateOpts list"
  Capabilities :: "capability_raw list"
  RestorePoint :: "restore_point_raw option"

text \<open>
  The \<open>extractDatabase...\<close> helpers are declared outside the given sources; they are
  parameters of the model. A helper that can return an error returns \<open>None\<close> for it.
  \<open>extractDatabaseNetworks\<close> also returns an error, which the caller drops.
\<close>

record extractors =
  extractDatabaseRestorePoint :: "restore_point_raw list \<Rightarrow> restore_point_raw option"
  extractDatabaseDatastore :: "datastore_raw list \<Rightarrow> datastore_raw option"
  extractDatabaseAutoExpand :: "autoexpand_raw list \<Rightarrow> autoexpand_raw option"
  extractDatabaseNetworks :: "network_raw list \<Rightarrow> NetworkOpts list \<times> string list"
  extractDatabaseWalVolume :: "wal_volume_raw list \<Rightarrow> wal_volume_raw option"
  extractDatabaseCapabilities :: "capability_raw list \<Rightarrow> capability_raw list option"

definition message :: string where
  "message = ''unable to determine vkcs_db_cluster_with_shards''"

text \<open>The body of the first loop (lines 858-877) for one shard block: the descriptor
  \<open>shardInfo[i]\<close>, or the diagnostics of the early return.\<close>

definition shardInfo_of :: "extractors \<Rightarrow> shard_raw \<Rightarrow> diagnostic list + InstanceCreateOpts" where
  "shardInfo_of ex sh =
     (let (nics, sgs) = extractDatabaseNetworks ex (network sh);
          info = zero_InstanceCreateOpts
                   \<lparr>Volume := Some \<lparr>Size = volume_size sh, VolumeType = volume_type sh\<rparr>,
                    Nics := nics, SecurityGroups := sgs,
                    AvailabilityZone := availability_zone sh,
                    FlavorRef := flavor_id sh,
                    ShardID := shard_id sh\<rparr>
      in if length (wal_volume sh) > 0
         then (case extractDatabaseWalVolume ex (wal_volume sh) of
                 None \<Rightarrow> Inl (diag_Error (message @ '' wal_volume''))
               | Some w \<Rightarrow>
                   Inr (info\<lparr>Walvolume := Some \<lparr>WalSize = wal_size w,
                                                 WalVolumeType = wal_volume_type w\<rparr>\<rparr>))
         else Inr info)"

text \<open>The first loop: \<open>instanceCount\<close>, \<open>shardInfo\<close> and \<open>shardsSize\<close> after the blocks
  still to visit.\<close>

fun shard_loop ::
  "extractors \<Rightarrow> shard_raw list \<Rightarrow> int \<times> InstanceCreateOpts list \<times> int list
     \<Rightarrow> diagnostic list + (int \<times> InstanceCreateOpts list \<times> int list)" where
  "shard_loop ex [] acc = Inr acc"
| "shard_loop ex (sh # shs) (instanceCount, shardInfo, shardsSize) =
     (case shardInfo_of ex sh of
        Inl e \<Rightarrow> Inl e
      | Inr info \<Rightarrow>
          shard_loop ex shs
            (wrap64 (instanceCount + shard_size sh), shardInfo @ [info],
             shardsSize @ [shard_size sh]))"

text \<open>The inner loop \<open>for j := 0; j < shardSize; j++\<close> (lines 885-888), \<open>n\<close> iterations
  left: a write past the end of \<open>clusterInstances\<close> panics.\<close>

fun fill_shard ::
  "nat \<Rightarrow> InstanceCreateOpts \<Rightarrow> InstanceCreateOpts list \<times> nat
     \<Rightarrow> panic + (InstanceCreateOpts list \<times> nat)" where
  "fill_shard 0 info (clusterInstances, k) = Inr (clusterInstances, k)"
| "fill_shard (Suc n) info (clusterInstances, k) =
     (if k < length clusterInstances
      then fill_shard n info (clusterInstances[k := info], Suc k)
      else Inl IndexOutOfRange)"

text \<open>The outer loop over \<open>shardsSize\<close> (line 884); \<open>shardInfo\<close> has the same length.\<close>

fun fill_all ::
  "(InstanceCreateOpts \<times> int) list \<Rightarrow> InstanceCreateOpts list \<times> nat
     \<Rightarrow> panic + (InstanceCreateOpts list \<times> nat)" where
  "fill_all [] acc = Inr acc"
| "fill_all ((info, shardSize) # rest) acc =
     (case fill_shard (nat shardSize) info acc of
        Inl p \<Rightarrow> Inl p
      | Inr acc' \<Rightarrow> fill_all rest acc')"

text \<open>Lines 853-890: the value assigned to \<open>createOpts.Instances\<close>. \<open>make\<close> panics on a
  negative length; the memory that a long slice needs is not modelled.\<close>

definition create_instances ::
  "extractors \<Rightarrow> string \<Rightarrow> shard_raw list \<Rightarrow> InstanceCreateOpts list outcome" where
  "create_instances ex kp shardsRaw =
     (case shard_loop ex shardsRaw (0, [], []) of
        Inl e \<Rightarrow> Fails e
      | Inr (instanceCount, shardInfo, shardsSize) \<Rightarrow>
          (let shardInfo' = map (\<lambda>info. info\<lparr>Keypair := kp\<rparr>) shardInfo
           in if instanceCount < 0 then Panics MakesliceLenOutOfRange
              else (case fill_all (zip shardInfo' shardsSize)
                           (replicate (nat instanceCount) zero_InstanceCreateOpts, 0) of
                      Inl p \<Rightarrow> Panics p
                    | Inr (clusterInstances, k) \<Rightarrow> Returns clusterInstances)))"

section \<open>Read: the shard list rebuilt from the remote cluster\<close>

record ClusterInstanceResp =
  InstID :: string
  InstShardID :: string
  InstIP :: "string list"

text \<open>
  Modelled from the spec: \<open>getDatabaseClusterShardInstances\<close> is called at line 975 and
  declared outside the given sources. The spec (4.3): "group remote instances by shard
  id". The Go value is a map from shard id to the instances of that shard; it is held as
  an association list with one entry per shard id.
\<close>

definition getDatabaseClusterShardInstances ::
  "ClusterInstanceResp list \<Rightarrow> (string \<times> ClusterInstanceResp list) list" where
  "getDatabaseClusterShardInstances insts =
     map (\<lambda>sid. (sid, filter (\<lambda>inst. InstShardID inst = sid) insts))
         (remdups (map InstShardID insts))"

text \<open>
  Modelled from the spec: \<open>flattenDatabaseClusterShard\<close> is called at line 434 and declared
  outside the given sources. The spec (4.3): "for each group, compute
  \<open>size = len(instances)\<close>", and the output "carries only what is authoritatively
  observable (instance identities, shard id, count, IP addresses)"; every other field
  is left at its zero value.
\<close>

definition flattenDatabaseClusterShard :: "string \<Rightarrow> ClusterInstanceResp list \<Rightarrow> shard_raw" where
  "flattenDatabaseClusterShard shardID insts =
     \<lparr>shard_id = shardID, shard_size = int (length insts), shrink_options = [],
      flavor_id = [], volume_size = 0, volume_type = [], wal_volume = [], network = [],
      availability_zone = [],
      instances = map (\<lambda>inst. \<lparr>instance_id = InstID inst, ip = InstIP inst\<rparr>) insts\<rparr>"

text \<open>
  Modelled from the spec: \<open>flattenDatabaseClusterShards\<close> is called at line 976 and
  declared outside the given sources. The spec (4.3) has one reconciled shard "for each
  group"; a Go map is walked in no fixed order, the order here is that of the association
  list.
\<close>

definition flattenDatabaseClusterShards ::
  "(string \<times> ClusterInstanceResp list) list \<Rightarrow> shard_raw list" where
  "flattenDatabaseClusterShards shardsInstances =
     map (\<lambda>(shardID, insts). flattenDatabaseClusterShard shardID insts) shardsInstances"

text \<open>The inner loop of lines 988-994: is there a declared shard block with the id of
  \<open>fSh\<close>?\<close>

fun declared_match :: "shard_raw list \<Rightarrow> shard_raw \<Rightarrow> bool" where
  "declared_match [] fSh = False"
| "declared_match (rawSh # rawShards) fSh =
     (if shard_id fSh = shard_id rawSh then True else declared_match rawShards fSh)"

text \<open>\<open>OuterLoop\<close> (lines 986-996) over the flattened shards still to visit, with the
  slices \<open>shards\<close> and \<open>newShards\<close> built so far.\<close>

fun OuterLoop ::
  "shard_raw list \<Rightarrow> shard_raw list \<Rightarrow> shard_raw list \<times> shard_raw list
     \<Rightarrow> shard_raw list \<times> shard_raw list" where
  "OuterLoop rawShards [] acc = acc"
| "OuterLoop rawShards (fSh # rest) (shards, newShards) =
     (if declared_match rawShards fSh
      then OuterLoop rawShards rest (shards @ [fSh], newShards)
      else OuterLoop rawShards rest (shards, newShards @ [fSh]))"

text \<open>
  Lines 977-998. \<open>sort.Slice\<close> orders the flattened shards by ascending \<open>shard_id\<close>
  (Go compares strings bytewise, which is the lexicographic order of \<open>char list\<close>);
  the ids are the keys of a map, so they are distinct and the sorted slice is unique.
\<close>

definition ordered_shards :: "shard_raw list \<Rightarrow> shard_raw list \<Rightarrow> shard_raw list" where
  "ordered_shards rawShards flattenedShards =
     (let (shards, newShards) = OuterLoop rawShards (sort_key shard_id flattenedShards) ([], [])
      in shards @ newShards)"

text \<open>
  Lines 999-1026, the overlay of the declared values on the shard at the same index.
  \<open>d.Get\<close> of an index past the declared blocks is the zero value; \<open>d.GetOk\<close> is "ok"
  for a non-empty string. Lines 1009-1015 rewrite only the key \<open>wal_volume\<close>, from a
  \<open>d.GetOk\<close> whose address is resolved by the SDK: they are the parameter \<open>walOverlay\<close>.
\<close>

definition overlay_shard ::
  "(nat \<Rightarrow> wal_volume_raw list \<Rightarrow> wal_volume_raw list) \<Rightarrow> shard_raw list \<Rightarrow> nat \<Rightarrow> shard_raw
     \<Rightarrow> shard_raw" where
  "overlay_shard walOverlay rawShards i sh =
     (let az = (if i < length rawShards then availability_zone (rawShards ! i) else []);
          nw = (if i < length rawShards then network (rawShards ! i) else []);
          vt = (if i < length rawShards then volume_type (rawShards ! i) else []);
          sh1 = sh\<lparr>availability_zone := az, network := nw\<rparr>;
          sh2 = (if vt \<noteq> [] then sh1\<lparr>volume_type := vt\<rparr> else sh1)
      in sh2\<lparr>wal_volume := walOverlay i (wal_volume sh2)\<rparr>)"

text \<open>Lines 975-1030: the value that \<open>resourceDatabaseClusterWithShardsRead\<close> stores under
  \<open>shard\<close>, from the remote instances and the declared shard blocks.\<close>

definition read_shards ::
  "(nat \<Rightarrow> wal_volume_raw list \<Rightarrow> wal_volume_raw list) \<Rightarrow> shard_raw list \<Rightarrow> shard_raw list
     \<Rightarrow> shard_raw list" where
  "read_shards walOverlay rawShards flattenedShards =
     (let shards = ordered_shards rawShards flattenedShards
      in map (\<lambda>(i, sh). overlay_shard walOverlay rawShards i sh) (enumerate 0 shards))"

definition resourceDatabaseClusterWithShardsRead_shards ::
  "(nat \<Rightarrow> wal_volume_raw list \<Rightarrow> wal_volume_raw list) \<Rightarrow> shard_raw list
     \<Rightarrow> ClusterInstanceResp list \<Rightarrow> shard_raw list" where
  "resourceDatabaseClusterWithShardsRead_shards walOverlay rawShards insts =
     read_shards walOverlay rawShards
       (flattenDatabaseClusterShards (getDatabaseClusterShardInstances insts))"

section \<open>Waiting for the cluster: the \<open>StateChangeConf\<close> of each operation\<close>

datatype dbClusterStatus =
  dbClusterStatusBuild | dbClusterStatusActive | dbClusterStatusDeleting | dbClusterStatusDeleted

text \<open>The package constants \<open>dbInstanceDelay\<close>, \<open>dbInstanceMinTimeout\<close>, \<open>dbCreateTimeout\<close> and
  \<open>dbDeleteTimeout\<close> are declared outside the given sources: they are parameters.\<close>

record db_constants =
  dbInstanceDelay :: nat
  dbInstanceMinTimeout :: nat
  dbCreateTimeout :: nat
  dbDeleteTimeout :: nat

text \<open>\<open>Refresh\<close> is \<open>databaseClusterStateRefreshFunc(client, id, capabilities)\<close>: the cluster it
  polls and the capabilities it checks.\<close>

record StateChangeConf =
  Pending :: "dbClusterStatus list"
  Target :: "dbClusterStatus list"
  RefreshID :: string
  RefreshCapabilities :: "capability_raw list option"
  Timeout :: nat
  Delay :: nat
  MinTimeout :: nat

text \<open>Lines 454-457: the timeouts the resource declares. There is no entry for update.\<close>

definition resource_Timeouts :: "db_constants \<Rightarrow> timeout_key \<Rightarrow> nat option" where
  "resource_Timeouts k key =
     (case key of
        TimeoutCreate \<Rightarrow> Some (dbCreateTimeout k)
      | TimeoutDelete \<Rightarrow> Some (dbDeleteTimeout k)
      | _ \<Rightarrow> None)"

text \<open>Lines 916-923, in \<open>resourceDatabaseClusterWithShardsCreate\<close>.\<close>

definition create_stateConf ::
  "db_constants \<Rightarrow> ResourceData \<Rightarrow> string \<Rightarrow> capability_raw list option \<Rightarrow> StateChangeConf" where
  "create_stateConf k d clusterID checkCapabilities =
     \<lparr>Pending = [dbClusterStatusBuild], Target = [dbClusterStatusActive],
      RefreshID = clusterID, RefreshCapabilities = checkCapabilities,
      Timeout = timeouts d TimeoutCreate,
      Delay = dbInstanceDelay k, MinTimeout = dbInstanceMinTimeout k\<rparr>"

text \<open>Lines 1041-1049, in \<open>resourceDatabaseClusterWithShardsUpdate\<close>.\<close>

definition update_stateConf :: "db_constants \<Rightarrow> ResourceData \<Rightarrow> StateChangeConf" where
  "update_stateConf k d =
     \<lparr>Pending = [dbClusterStatusBuild], Target = [dbClusterStatusActive],
      RefreshID = Id d, RefreshCapabilities = None,
      Timeout = timeouts d TimeoutCreate,
      Delay = dbInstanceDelay k, MinTimeout = dbInstanceMinTimeout k\<rparr>"

text \<open>Lines 1147-1154, in \<open>resourceDatabaseClusterWithShardsDelete\<close>.\<close>

definition delete_stateConf :: "db_constants \<Rightarrow> ResourceData \<Rightarrow> StateChangeConf" where
  "delete_stateConf k d =
     \<lparr>Pending = [dbClusterStatusActive, dbClusterStatusDeleting],
      Target = [dbClusterStatusDeleted],
      RefreshID = Id d, RefreshCapabilities = None,
      Timeout = timeouts d TimeoutDelete,
      Delay = dbInstanceDelay k, MinTimeout = dbInstanceMinTimeout k\<rparr>"

section \<open>Errors of the update actions and their diagnostic\<close>

text \<open>The sentinel errors that \<open>databaseClusterWithShardsUpdateProcessError\<close> names.\<close>

datatype sentinel =
  errDBClusterNotFound
| errDBClusterShardNotFound
| errDBClusterUpdateWait
| errDBClusterUpdateDiskAutoexpand
| errDBClusterUpdateDiskAutoexpandExtract
| errDBClusterUpdateWalDiskAutoexpand
| errDBClusterUpdateWalDiskAutoexpandExtract
| errDBClusterUpdateCloudMonitoring
| errDBClusterActionUpdateConfiguration
| errDBClusterActionApplyCapabitilies
| errDBClusterActionApplyCapabilitiesExtract
| errDBClusterActionResizeWalVolumeExtract
| errDBClusterActionGrow
| errDBClusterActionShrink
| errDBClusterActionShrinkWrongOptions
| errDBClusterActionShrinkInstancesExtract
| errDBClusterActionResizeVolume
| errDBClusterActionResizeWalVolume
| errDBClusterActionResizeFlavor

text \<open>
  A Go \<open>error\<close>: one of the sentinels, any other error with its text, or an error with
  its own text that wraps another one (\<open>fmt.Errorf\<close> with \<open>%w\<close>).
\<close>

datatype go_error = Sentinel sentinel | Plain string | Wrapped string go_error

text \<open>
  Two library facts are parameters: the text of each sentinel (the \<open>errors.New\<close> calls are
  outside the given sources) and \<open>fmt.Sprintf\<close> applied to a format with no operand,
  which is what \<open>diag.Errorf(errMsg)\<close> does to the message.
\<close>

record go_env =
  sentinel_text :: "sentinel \<Rightarrow> string"
  Sprintf :: "string \<Rightarrow> string"

fun Error_text :: "go_env \<Rightarrow> go_error \<Rightarrow> string" where
  "Error_text g (Sentinel s) = sentinel_text g s"
| "Error_text g (Plain t) = t"
| "Error_text g (Wrapped t e) = t"

fun Unwrap :: "go_error \<Rightarrow> go_error option" where
  "Unwrap (Wrapped t e) = Some e"
| "Unwrap e = None"

text \<open>\<open>strings.Replace(s, old, new, 1)\<close>: the first occurrence of \<open>old\<close> in \<open>s\<close> becomes
  \<open>new\<close>; an empty \<open>old\<close> matches at the start of \<open>s\<close>.\<close>

fun strings_Replace1 :: "string \<Rightarrow> string \<Rightarrow> string \<Rightarrow> string" where
  "strings_Replace1 [] old new = (if old = [] then new else [])"
| "strings_Replace1 (c # s) old new =
     (if prefix old (c # s) then new @ drop (length old) (c # s)
      else c # strings_Replace1 s old new)"

definition cluster_kind :: string where
  "cluster_kind = ''vkcs_db_cluster_with_shards ''"

text \<open>The \<open>switch\<close> of lines 1171-1212.\<close>

fun sentinel_message :: "sentinel \<Rightarrow> string \<Rightarrow> string \<Rightarrow> string" where
  "sentinel_message errDBClusterNotFound clusterID shardID =
     ''error retrieving '' @ cluster_kind @ clusterID"
| "sentinel_message errDBClusterShardNotFound clusterID shardID =
     ''unable to extract shard from '' @ cluster_kind @ clusterID"
| "sentinel_message errDBClusterUpdateWait clusterID shardID =
     ''error waiting for '' @ cluster_kind @ clusterID @ '' to become ready''"
| "sentinel_message errDBClusterUpdateDiskAutoexpand clusterID shardID =
     ''error updating disk_autoexpand for '' @ cluster_kind @ clusterID"
| "sentinel_message errDBClusterUpdateDiskAutoexpandExtract clusterID shardID =
     ''unable to determine disk_autoexpand fron '' @ cluster_kind @ clusterID"
| "sentinel_message errDBClusterUpdateWalDiskAutoexpand clusterID shardID =
     ''error updating wal_disk_autoexpand for '' @ cluster_kind @ clusterID"
| "sentinel_message errDBClusterUpdateWalDiskAutoexpandExtract clusterID shardID =
     ''unable to determine wal_disk_autoexpand from '' @ cluster_kind @ clusterID"
| "sentinel_message errDBClusterUpdateCloudMonitoring clusterID shardID =
     ''error updating cloud_monitoring_enabled for '' @ cluster_kind @ clusterID"
| "sentinel_message errDBClusterActionUpdateConfiguration clusterID shardID =
     ''error updating configuration for '' @ cluster_kind @ clusterID"
| "sentinel_message errDBClusterActionApplyCapabitilies clusterID shardID =
     ''error updating capabilities for '' @ cluster_kind @ clusterID"
| "sentinel_message errDBClusterActionApplyCapabilitiesExtract clusterID shardID =
     ''error extracting capabilities for '' @ cluster_kind @ clusterID"
| "sentinel_message errDBClusterActionResizeWalVolumeExtract clusterID shardID =
     ''unable to determine wal_volume from shard '' @ shardID @ '' of '' @ cluster_kind @ clusterID"
| "sentinel_message errDBClusterActionGrow clusterID shardID =
     ''error growing shard '' @ shardID @ '' of '' @ cluster_kind @ clusterID"
| "sentinel_message errDBClusterActionShrink clusterID shardID =
     ''error shrinking shard '' @ shardID @ '' of '' @ cluster_kind @ clusterID"
| "sentinel_message errDBClusterActionShrinkWrongOptions clusterID shardID =
     ''invalid shrink options for shard '' @ shardID @ '' of '' @ cluster_kind @ clusterID"
| "sentinel_message errDBClusterActionShrinkInstancesExtract clusterID shardID =
     ''error determining instances to shrink shard '' @ shardID @ '' of '' @ cluster_kind @ clusterID"
| "sentinel_message errDBClusterActionResizeVolume clusterID shardID =
     ''error resizing volume for shard '' @ shardID @ '' of '' @ cluster_kind @ clusterID"
| "sentinel_message errDBClusterActionResizeWalVolume clusterID shardID =
     ''error resizing wal_volume for shard '' @ shardID @ '' of '' @ cluster_kind @ clusterID"
| "sentinel_message errDBClusterActionResizeFlavor clusterID shardID =
     ''error changing flavor for shard '' @ shardID @ '' of '' @ cluster_kind @ clusterID"

text \<open>Lines 1164-1216. \<open>errMsg\<close> is the text handed to \<open>diag.Errorf\<close>.\<close>

definition errMsg_of :: "go_env \<Rightarrow> go_error \<Rightarrow> string \<Rightarrow> string \<Rightarrow> string" where
  "errMsg_of g err clusterID shardID =
     (let baseErr = (case Unwrap err of Some unwrappedErr \<Rightarrow> unwrappedErr | None \<Rightarrow> err);
          newErrMsg = (case baseErr of
                         Sentinel s \<Rightarrow> sentinel_message s clusterID shardID
                       | _ \<Rightarrow> Error_text g baseErr)
      in strings_Replace1 (Error_text g err) (Error_text g baseErr) newErrMsg)"

definition databaseClusterWithShardsUpdateProcessError ::
  "go_env \<Rightarrow> go_error \<Rightarrow> string \<Rightarrow> string \<Rightarrow> diagnostic list" where
  "databaseClusterWithShardsUpdateProcessError g err clusterID shardID =
     diag_Error (Sprintf g (errMsg_of g err clusterID shardID))"

section \<open>Create, from the configuration to the remote calls\<close>

text \<open>A step that may return early with a value \<open>'e\<close>, and the sequencing of two steps:
  the second runs only if the first did not return early.\<close>

definition then_do ::
  "('w \<Rightarrow> 'w \<times> 'e option) \<Rightarrow> ('w \<Rightarrow> 'w \<times> 'e option) \<Rightarrow> 'w \<Rightarrow> 'w \<times> 'e option" where
  "then_do f h w = (case f w of (w', Some e) \<Rightarrow> (w', Some e) | (w', None) \<Rightarrow> h w')"

definition skip_step :: "'w \<Rightarrow> 'w \<times> 'e option" where
  "skip_step w = (w, None)"

text \<open>Lines 803-851: the options before the instances are added, one definition for each
  \<open>if v, ok := d.GetOk(...)\<close>. \<open>d.GetOk\<close> of a list of blocks is "ok" when the list is
  not empty. \<open>bind_sum\<close> passes an early return on.\<close>

definition bind_sum :: "'e + 'a \<Rightarrow> ('a \<Rightarrow> 'e + 'b) \<Rightarrow> 'e + 'b" where
  "bind_sum r f = (case r of Inl e \<Rightarrow> Inl e | Inr x \<Rightarrow> f x)"

definition set_restore_point ::
  "extractors \<Rightarrow> cluster_config \<Rightarrow> CreateOpts \<Rightarrow> diagnostic list + CreateOpts" where
  "set_restore_point ex c createOpts =
     (if restore_point c \<noteq> []
      then (case extractDatabaseRestorePoint ex (restore_point c) of
              None \<Rightarrow> Inl (diag_Error (message @ '' restore_point''))
            | Some r \<Rightarrow> Inr (createOpts\<lparr>RestorePoint := Some r\<rparr>))
      else Inr createOpts)"

definition set_datastore ::
  "extractors \<Rightarrow> cluster_config \<Rightarrow> CreateOpts \<Rightarrow> diagnostic list + CreateOpts" where
  "set_datastore ex c createOpts =
     (if datastore c \<noteq> []
      then (case extractDatabaseDatastore ex (datastore c) of
              None \<Rightarrow> Inl (diag_Error (message @ '' datastore''))
            | Some ds \<Rightarrow> Inr (createOpts\<lparr>Datastore := Some ds\<rparr>))
      else Inr createOpts)"

definition set_disk_autoexpand ::
  "extractors \<Rightarrow> cluster_config \<Rightarrow> CreateOpts \<Rightarrow> diagnostic list + CreateOpts" where
  "set_disk_autoexpand ex c createOpts =
     (if disk_autoexpand c \<noteq> []
      then (case extractDatabaseAutoExpand ex (disk_autoexpand c) of
              None \<Rightarrow> Inl (diag_Error (message @ '' disk_autoexpand''))
            | Some a \<Rightarrow> Inr (createOpts\<lparr>AutoExpand := (if autoexpand a then 1 else 0),
                                          MaxDiskSize := max_disk_size a\<rparr>))
      else Inr createOpts)"

definition set_wal_disk_autoexpand ::
  "extractors \<Rightarrow> cluster_config \<Rightarrow> CreateOpts \<Rightarrow> diagnostic list + CreateOpts" where
  "set_wal_disk_autoexpand ex c createOpts =
     (if wal_disk_autoexpand c \<noteq> []
      then (case extractDatabaseAutoExpand ex (wal_disk_autoexpand c) of
              None \<Rightarrow> Inl (diag_Error (message @ '' wal_disk_autoexpand''))
            | Some a \<Rightarrow> Inr (createOpts\<lparr>WalAutoExpand := (if autoexpand a then 1 else 0),
                                          WalMaxDiskSize := max_disk_size a\<rparr>))
      else Inr createOpts)"

definition createOpts_head :: "extractors \<Rightarrow> cluster_config \<Rightarrow> diagnostic list + CreateOpts" where
  "createOpts_head ex c =
     bind_sum (set_restore_point ex c
                 \<lparr>Name = cluster_name c, Datastore = None,
                  FloatingIPEnabled = floating_ip_enabled c,
                  CloudMonitoringEnabled = cloud_monitoring_enabled c,
                  AutoExpand = 0, MaxDiskSize = 0, WalAutoExpand = 0, WalMaxDiskSize = 0,
                  Instances = [], Capabilities = [], RestorePoint = None\<rparr>)
       (\<lambda>o1. bind_sum (set_datastore ex c o1)
          (\<lambda>o2. bind_sum (set_disk_autoexpand ex c o2)
             (\<lambda>o3. set_wal_disk_autoexpand ex c o3)))"

text \<open>Lines 803-902: the request handed to \<open>clusters.Create\<close>, with \<open>checkCapabilities\<close>.\<close>

definition createOpts_of ::
  "extractors \<Rightarrow> ResourceData \<Rightarrow> (CreateOpts \<times> capability_raw list option) outcome" where
  "createOpts_of ex d =
     (let c = planned d
      in case createOpts_head ex c of
           Inl e \<Rightarrow> Fails e
         | Inr o3 \<Rightarrow>
             (case create_instances ex (keypair c) (shard c) of
                Panics p \<Rightarrow> Panics p
              | Fails e \<Rightarrow> Fails e
              | Returns clusterInstances \<Rightarrow>
                  (let o4 = o3\<lparr>Instances := clusterInstances\<rparr>
                   in if capabilities c \<noteq> []
                      then (case extractDatabaseCapabilities ex (capabilities c) of
                              None \<Rightarrow> Fails (diag_Error (message @ '' capability''))
                            | Some caps \<Rightarrow> Returns (o4\<lparr>Capabilities := caps\<rparr>, Some caps))
                      else Returns (o4, None))))"

text \<open>
  The remote control plane and the SDK's waiting loop are outside the repository: they
  are parameters that transform a world \<open>'w\<close>. An error of a remote call is its text.
  \<open>ReadResource\<close> is the closing call of \<open>resourceDatabaseClusterWithShardsRead\<close>, and
  \<open>CheckDeleted\<close> is \<open>util.CheckDeleted\<close> turned into diagnostics.
\<close>

record 'w cloud =
  clusters_Create :: "CreateOpts \<Rightarrow> 'w \<Rightarrow> 'w \<times> (string + string)"
  clusters_Delete :: "string \<Rightarrow> 'w \<Rightarrow> 'w \<times> string option"
  WaitForStateContext :: "StateChangeConf \<Rightarrow> 'w \<Rightarrow> 'w \<times> string option"
  AttachConfigurationGroup :: "string \<Rightarrow> string \<Rightarrow> 'w \<Rightarrow> 'w \<times> string option"
  ReadResource :: "ResourceData \<Rightarrow> 'w \<Rightarrow> 'w \<times> diagnostic list"
  CheckDeleted :: "ResourceData \<Rightarrow> string \<Rightarrow> string \<Rightarrow> diagnostic list"

text \<open>Lines 913-943: the wait for the cluster, the attachment of the configuration group,
  and the closing read.\<close>

definition create_wait_attach_read ::
  "db_constants \<Rightarrow> 'w cloud \<Rightarrow> ResourceData \<Rightarrow> string \<Rightarrow> capability_raw list option \<Rightarrow> 'w
     \<Rightarrow> 'w \<times> diagnostic list outcome" where
  "create_wait_attach_read k cl d clusterID checkCapabilities w1 =
     (case WaitForStateContext cl (create_stateConf k d clusterID checkCapabilities) w1 of
        (w2, Some err) \<Rightarrow>
          (w2, Fails (diag_Error (''error waiting for '' @ cluster_kind @ clusterID @
                                   '' to become ready: '' @ err)))
      | (w2, None) \<Rightarrow>
          (case (if configuration_id (planned d) \<noteq> []
                 then AttachConfigurationGroup cl clusterID (configuration_id (planned d)) w2
                 else (w2, None)) of
             (w3, Some err) \<Rightarrow>
               (w3, Fails (diag_Error
                  (''error attaching configuration group '' @ configuration_id (planned d)
                    @ '' to '' @ cluster_kind @ clusterID @ '': '' @ err)))
           | (w3, None) \<Rightarrow>
               (case ReadResource cl (d\<lparr>Id := clusterID\<rparr>) w3 of
                  (w4, ds) \<Rightarrow> (w4, Returns ds))))"

text \<open>Lines 908-943: the remote call with the request, then the steps above.\<close>

definition create_remote ::
  "db_constants \<Rightarrow> 'w cloud \<Rightarrow> ResourceData \<Rightarrow> CreateOpts \<Rightarrow> capability_raw list option \<Rightarrow> 'w
     \<Rightarrow> 'w \<times> diagnostic list outcome" where
  "create_remote k cl d createOpts checkCapabilities w =
     (case clusters_Create cl createOpts w of
        (w1, Inl err) \<Rightarrow>
          (w1, Fails (diag_Error (''error creating vkcs_db_cluster_with_shards: '' @ err)))
      | (w1, Inr clusterID) \<Rightarrow>
          create_wait_attach_read k cl d clusterID checkCapabilities w1)"

text \<open>Lines 803-944 of \<open>resourceDatabaseClusterWithShardsCreate\<close>, once the client exists.\<close>

definition resourceDatabaseClusterWithShardsCreate ::
  "extractors \<Rightarrow> db_constants \<Rightarrow> 'w cloud \<Rightarrow> ResourceData \<Rightarrow> 'w
     \<Rightarrow> 'w \<times> diagnostic list outcome" where
  "resourceDatabaseClusterWithShardsCreate ex k cl d w =
     (case createOpts_of ex d of
        Panics p \<Rightarrow> (w, Panics p)
      | Fails e \<Rightarrow> (w, Fails e)
      | Returns (createOpts, checkCapabilities) \<Rightarrow>
          create_remote k cl d createOpts checkCapabilities w)"

text \<open>Lines 1142-1161 of \<open>resourceDatabaseClusterWithShardsDelete\<close>.\<close>

definition resourceDatabaseClusterWithShardsDelete ::
  "db_constants \<Rightarrow> 'w cloud \<Rightarrow> ResourceData \<Rightarrow> 'w \<Rightarrow> 'w \<times> diagnostic list" where
  "resourceDatabaseClusterWithShardsDelete k cl d w =
     (case clusters_Delete cl (Id d) w of
        (w1, Some err) \<Rightarrow>
          (w1, CheckDeleted cl d err ''Error deleting vkcs_db_cluster_with_shards'')
      | (w1, None) \<Rightarrow>
          (case WaitForStateContext cl (delete_stateConf k d) w1 of
             (w2, Some err) \<Rightarrow>
               (w2, diag_Error (''error waiting for '' @ cluster_kind @ Id d @
                                 '' to delete: '' @ err))
           | (w2, None) \<Rightarrow> (w2, [])))"

text \<open>A cloud that also records, next to its world, every configuration that
  \<open>WaitForStateContext\<close> is called with.\<close>

definition recording :: "'w cloud \<Rightarrow> ('w \<times> StateChangeConf list) cloud" where
  "recording cl =
     \<lparr>clusters_Create =
        (\<lambda>createOpts wl. case clusters_Create cl createOpts (fst wl) of
                            (w', r) \<Rightarrow> ((w', snd wl), r)),
      clusters_Delete =
        (\<lambda>clusterID wl. case clusters_Delete cl clusterID (fst wl) of
                           (w', r) \<Rightarrow> ((w', snd wl), r)),
      WaitForStateContext =
        (\<lambda>stateConf wl. case WaitForStateContext cl stateConf (fst wl) of
                           (w', r) \<Rightarrow> ((w', snd wl @ [stateConf]), r)),
      AttachConfigurationGroup =
        (\<lambda>clusterID conf wl. case AttachConfigurationGroup cl clusterID conf (fst wl) of
                                (w', r) \<Rightarrow> ((w', snd wl), r)),
      ReadResource =
        (\<lambda>d wl. case ReadResource cl d (fst wl) of (w', ds) \<Rightarrow> ((w', snd wl), ds)),
      CheckDeleted = CheckDeleted cl\<rparr>"

text \<open>The configurations of the waits that a create and a delete make from the world
  \<open>w\<close>, in order.\<close>

definition waits_of_create ::
  "extractors \<Rightarrow> db_constants \<Rightarrow> 'w cloud \<Rightarrow> ResourceData \<Rightarrow> 'w \<Rightarrow> StateChangeConf list" where
  "waits_of_create ex k cl d w =
     snd (fst (resourceDatabaseClusterWithShardsCreate ex k (recording cl) d (w, [])))"

definition waits_of_delete ::
  "db_constants \<Rightarrow> 'w cloud \<Rightarrow> ResourceData \<Rightarrow> 'w \<Rightarrow> StateChangeConf list" where
  "waits_of_delete k cl d w =
     snd (fst (resourceDatabaseClusterWithShardsDelete k (recording cl) d (w, [])))"

section \<open>The schema's validation before the create path\<close>

text \<open>The constant \<open>Clickhouse\<close> is declared outside the given sources; line 499 gives its
  value: the type of the datastore must be "clickhouse". The text of
  \<open>getClusterWithShardsDatastores()\<close> under \<open>%v\<close> is the parameter \<open>allowed\<close>.\<close>

definition Clickhouse :: string where
  "Clickhouse = ''clickhouse''"

text \<open>Lines 492-498: the warnings and the errors for the value \<open>v\<close> at the key \<open>key\<close>.\<close>

definition datastore_type_ValidateFunc :: "string \<Rightarrow> string \<Rightarrow> string \<Rightarrow> string list \<times> string list" where
  "datastore_type_ValidateFunc allowed v key =
     ([], if v \<noteq> Clickhouse
          then [''datastore type must be '' @ allowed @ '', got: '' @ v]
          else [])"

text \<open>
  The SDK validates a configuration against the schema before it calls
  \<open>CreateContext\<close>: every \<open>datastore\<close> block's \<open>type\<close> goes through its \<open>ValidateFunc\<close>, and
  an error stops the operation.
\<close>

definition validate_datastore :: "string \<Rightarrow> cluster_config \<Rightarrow> string list" where
  "validate_datastore allowed c =
     concat (map (\<lambda>ds. snd (datastore_type_ValidateFunc allowed (ds_type ds) ''datastore.0.type''))
                 (datastore c))"

definition validated_create ::
  "string \<Rightarrow> extractors \<Rightarrow> db_constants \<Rightarrow> 'w cloud \<Rightarrow> ResourceData \<Rightarrow> 'w
     \<Rightarrow> 'w \<times> diagnostic list outcome" where
  "validated_create allowed ex k cl d w =
     (case validate_datastore allowed (planned d) of
        [] \<Rightarrow> resourceDatabaseClusterWithShardsCreate ex k cl d w
      | e # es \<Rightarrow> (w, Fails (concat (map diag_Error (e # es)))))"





text \<open>Lines 667-669: the \<open>DiffSuppressFunc\<close> of \<open>shrink_options\<close>.\<close>

definition shrink_options_DiffSuppressFunc ::
  "string \<Rightarrow> string \<Rightarrow> string \<Rightarrow> ResourceData \<Rightarrow> bool" where
  "shrink_options_DiffSuppressFunc k old new d = True"

section \<open>Update: the sequence of actions\<close>

text \<open>
  The ten functions that perform an action are declared outside the given sources.
  An \<open>action\<close> names the function called and the shard id handed to it:
  \<open>databaseClusterActionUpdateConfiguration\<close>, \<open>databaseClusterUpdateDiskAutoexpand\<close>,
  \<open>databaseClusterUpdateWalDiskAutoexpand\<close>, \<open>databaseClusterActionApplyCapabilities\<close>,
  \<open>databaseClusterUpdateCloudMonitoring\<close>, \<open>databaseClusterActionResizeVolume\<close>,
  \<open>databaseClusterActionResizeWalVolume\<close>, \<open>databaseClusterActionResizeFlavor\<close>,
  \<open>databaseClusterActionGrow\<close> and \<open>databaseClusterActionShrink\<close>.
\<close>

datatype action =
  UpdateConfiguration
| UpdateDiskAutoexpand
| UpdateWalDiskAutoexpand
| ApplyCapabilities
| UpdateCloudMonitoring
| ResizeVolume string
| ResizeWalVolume string
| ResizeFlavor string
| Grow string
| Shrink string

text \<open>\<open>dbResourceUpdateContext\<close>; its \<open>Ctx\<close> and \<open>Client\<close> are part of the world.\<close>

record dbResourceUpdateContext =
  D :: ResourceData
  StateConf :: StateChangeConf

text \<open>The parameter \<open>run\<close> stands for the ten functions: \<open>run updateCtx a w\<close> is the
  world after the call and the error returned, if any.\<close>

type_synonym 'w runner = "dbResourceUpdateContext \<Rightarrow> action \<Rightarrow> 'w \<Rightarrow> 'w \<times> go_error option"

text \<open>A call followed by \<open>if err != nil { return ...ProcessError(err, clusterID, shardID) }\<close>.\<close>

definition call_action ::
  "go_env \<Rightarrow> 'w runner \<Rightarrow> dbResourceUpdateContext \<Rightarrow> string \<Rightarrow> string \<Rightarrow> action \<Rightarrow> 'w
     \<Rightarrow> 'w \<times> diagnostic list option" where
  "call_action g run updateCtx clusterID shardID a w =
     (case run updateCtx a w of
        (w', None) \<Rightarrow> (w', None)
      | (w', Some err) \<Rightarrow>
          (w', Some (databaseClusterWithShardsUpdateProcessError g err clusterID shardID)))"

definition when_changed ::
  "bool \<Rightarrow> ('w \<Rightarrow> 'w \<times> 'e option) \<Rightarrow> 'w \<Rightarrow> 'w \<times> 'e option" where
  "when_changed c f = (if c then f else skip_step)"

definition zero_shard :: shard_raw where
  "zero_shard =
     \<lparr>shard_id = [], shard_size = 0, shrink_options = [], flavor_id = [], volume_size = 0,
      volume_type = [], wal_volume = [], network = [], availability_zone = [],
      instances = []\<rparr>"

text \<open>The prior value under \<open>shard.i\<close>: the zero value when the prior state has no such
  block.\<close>

definition prior_shard :: "ResourceData \<Rightarrow> nat \<Rightarrow> shard_raw" where
  "prior_shard d i = (if i < length (shard (prior d)) then shard (prior d) ! i else zero_shard)"

text \<open>Lines 1119-1129: \<open>sizeChange\<close> is a Go \<open>int\<close>.\<close>

definition sizeChange :: "shard_raw \<Rightarrow> shard_raw \<Rightarrow> int" where
  "sizeChange old new = wrap64 (shard_size new - shard_size old)"

text \<open>Lines 1094-1129: the body of the loop for the block \<open>shard\<close> at index \<open>i\<close>.\<close>

definition shard_body ::
  "go_env \<Rightarrow> 'w runner \<Rightarrow> dbResourceUpdateContext \<Rightarrow> string \<Rightarrow> ResourceData \<Rightarrow> nat
     \<Rightarrow> shard_raw \<Rightarrow> 'w \<Rightarrow> 'w \<times> diagnostic list option" where
  "shard_body g run updateCtx clusterID d i sh =
     (let shardID = shard_id sh; old = prior_shard d i
      in then_do
           (when_changed (volume_size old \<noteq> volume_size sh)
              (call_action g run updateCtx clusterID shardID (ResizeVolume shardID)))
        (then_do
           (when_changed (wal_volume old \<noteq> wal_volume sh)
              (call_action g run updateCtx clusterID shardID (ResizeWalVolume shardID)))
        (then_do
           (when_changed (flavor_id old \<noteq> flavor_id sh)
              (call_action g run updateCtx clusterID shardID (ResizeFlavor shardID)))
           (when_changed (shard_size old \<noteq> shard_size sh)
              (if sizeChange old sh > 0
               then call_action g run updateCtx clusterID shardID (Grow shardID)
               else if sizeChange old sh < 0
               then call_action g run updateCtx clusterID shardID (Shrink shardID)
               else skip_step)))))"

text \<open>The loop of lines 1093-1130 from index \<open>i\<close> on.\<close>

fun shards_loop ::
  "go_env \<Rightarrow> 'w runner \<Rightarrow> dbResourceUpdateContext \<Rightarrow> string \<Rightarrow> ResourceData \<Rightarrow> nat
     \<Rightarrow> shard_raw list \<Rightarrow> 'w \<Rightarrow> 'w \<times> diagnostic list option" where
  "shards_loop g run updateCtx clusterID d i [] w = (w, None)"
| "shards_loop g run updateCtx clusterID d i (sh # rest) w =
     (case shard_body g run updateCtx clusterID d i sh w of
        (w', Some e) \<Rightarrow> (w', Some e)
      | (w', None) \<Rightarrow> shards_loop g run updateCtx clusterID d (Suc i) rest w')"

definition updateCtx_of :: "db_constants \<Rightarrow> ResourceData \<Rightarrow> dbResourceUpdateContext" where
  "updateCtx_of k d = \<lparr>D = d, StateConf = update_stateConf k d\<rparr>"

text \<open>Lines 1041-1130: every action of one update, up to the first error.\<close>

definition update_actions ::
  "go_env \<Rightarrow> db_constants \<Rightarrow> 'w runner \<Rightarrow> ResourceData \<Rightarrow> 'w \<Rightarrow> 'w \<times> diagnostic list option" where
  "update_actions g k run d =
     (let clusterID = Id d; updateCtx = updateCtx_of k d; old = prior d; new = planned d
      in then_do
           (when_changed (configuration_id old \<noteq> configuration_id new)
              (call_action g run updateCtx clusterID [] UpdateConfiguration))
        (then_do
           (when_changed (disk_autoexpand old \<noteq> disk_autoexpand new)
              (call_action g run updateCtx clusterID [] UpdateDiskAutoexpand))
        (then_do
           (when_changed (wal_disk_autoexpand old \<noteq> wal_disk_autoexpand new)
              (call_action g run updateCtx clusterID [] UpdateWalDiskAutoexpand))
        (then_do
           (when_changed (capabilities old \<noteq> capabilities new)
              (call_action g run updateCtx clusterID [] ApplyCapabilities))
        (then_do
           (when_changed (cloud_monitoring_enabled old \<noteq> cloud_monitoring_enabled new)
              (call_action g run updateCtx clusterID [] UpdateCloudMonitoring))
           (shards_loop g run updateCtx clusterID d 0 (shard new)))))))"

text \<open>Lines 1041-1132 of \<open>resourceDatabaseClusterWithShardsUpdate\<close>, once the client
  exists: the diagnostic of the first failing action, or the closing read.\<close>

definition resourceDatabaseClusterWithShardsUpdate ::
  "go_env \<Rightarrow> db_constants \<Rightarrow> 'w runner \<Rightarrow> 'w cloud \<Rightarrow> ResourceData \<Rightarrow> 'w
     \<Rightarrow> 'w \<times> diagnostic list" where
  "resourceDatabaseClusterWithShardsUpdate g k run cl d w =
     (case update_actions g k run d w of
        (w', Some ds) \<Rightarrow> (w', ds)
      | (w', None) \<Rightarrow> ReadResource cl d w')"

text \<open>A runner that also records every call: the context and the action it was handed,
  and the error it returned.\<close>

definition traced ::
  "'w runner \<Rightarrow> ('w \<times> (dbResourceUpdateContext \<times> action \<times> go_error option) list) runner" where
  "traced run updateCtx a wt =
     (case run updateCtx a (fst wt) of
        (w', r) \<Rightarrow> ((w', snd wt @ [(updateCtx, a, r)]), r))"

text \<open>The calls one update makes from the world \<open>w\<close>, in order.\<close>

definition attempted ::
  "go_env \<Rightarrow> db_constants \<Rightarrow> 'w runner \<Rightarrow> ResourceData \<Rightarrow> 'w
     \<Rightarrow> (dbResourceUpdateContext \<times> action \<times> go_error option) list" where
  "attempted g k run d w = snd (fst (update_actions g k (traced run) d (w, [])))"

text \<open>The actions one update makes when no action fails.\<close>

definition emitted :: "ResourceData \<Rightarrow> action list" where
  "emitted d =
     map (\<lambda>c. fst (snd c))
       (attempted \<lparr>sentinel_text = (\<lambda>s. []), Sprintf = (\<lambda>t. t)\<rparr>
          \<lparr>dbInstanceDelay = 0, dbInstanceMinTimeout = 0, dbCreateTimeout = 0, dbDeleteTimeout = 0\<rparr>
          (\<lambda>updateCtx a w. (w, None)) d ())"

subsection \<open>The sequence in the words of the specification\<close>

text \<open>
  The spec (4.4): one action per changed top-level field in the order configuration
  attach, disk autoexpand, WAL autoexpand, capability application, monitoring toggle;
  then, per shard in declared order, volume-size change, WAL-volume change, flavor
  change, and a size increase as Grow or a size decrease as Shrink.
\<close>

definition top_plan :: "cluster_config \<Rightarrow> cluster_config \<Rightarrow> action list" where
  "top_plan old new =
     (if configuration_id old \<noteq> configuration_id new then [UpdateConfiguration] else []) @
     (if disk_autoexpand old \<noteq> disk_autoexpand new then [UpdateDiskAutoexpand] else []) @
     (if wal_disk_autoexpand old \<noteq> wal_disk_autoexpand new then [UpdateWalDiskAutoexpand] else []) @
     (if capabilities old \<noteq> capabilities new then [ApplyCapabilities] else []) @
     (if cloud_monitoring_enabled old \<noteq> cloud_monitoring_enabled new
      then [UpdateCloudMonitoring] else [])"

definition size_plan :: "shard_raw \<Rightarrow> shard_raw \<Rightarrow> action list" where
  "size_plan old new =
     (if shard_size old < shard_size new then [Grow (shard_id new)]
      else if shard_size new < shard_size old then [Shrink (shard_id new)]
      else [])"

definition shard_plan :: "shard_raw \<Rightarrow> shard_raw \<Rightarrow> action list" where
  "shard_plan old new =
     (if volume_size old \<noteq> volume_size new then [ResizeVolume (shard_id new)] else []) @
     (if wal_volume old \<noteq> wal_volume new then [ResizeWalVolume (shard_id new)] else []) @
     (if flavor_id old \<noteq> flavor_id new then [ResizeFlavor (shard_id new)] else []) @
     size_plan old new"

definition plan :: "ResourceData \<Rightarrow> action list" where
  "plan d =
     top_plan (prior d) (planned d) @
     concat (map (\<lambda>(i, sh). shard_plan (prior_shard d i) sh) (enumerate 0 (shard (planned d))))"

text \<open>The shard id an action is about, empty for a cluster-wide action.\<close>

fun shard_of :: "action \<Rightarrow> string" where
  "shard_of (ResizeVolume x) = x"
| "shard_of (ResizeWalVolume x) = x"
| "shard_of (ResizeFlavor x) = x"
| "shard_of (Grow x) = x"
| "shard_of (Shrink x) = x"
| "shard_of a = []"

text \<open>Running a list of actions in order, up to the first error.\<close>

fun run_plan ::
  "go_env \<Rightarrow> 'w runner \<Rightarrow> dbResourceUpdateContext \<Rightarrow> string \<Rightarrow> action list \<Rightarrow> 'w
     \<Rightarrow> 'w \<times> diagnostic list option" where
  "run_plan g run updateCtx clusterID [] w = (w, None)"
| "run_plan g run updateCtx clusterID (a # as) w =
     (case call_action g run updateCtx clusterID (shard_of a) a w of
        (w', Some e) \<Rightarrow> (w', Some e)
      | (w', None) \<Rightarrow> run_plan g run updateCtx clusterID as w')"

text \<open>The sizes whose difference a Go \<open>int\<close> holds.\<close>

definition sizes_fit :: "ResourceData \<Rightarrow> bool" where
  "sizes_fit d =
     ((\<forall>sh \<in> set (shard (prior d)). - (2 ^ 62) \<le> shard_size sh \<and> shard_size sh < 2 ^ 62) \<and>
      (\<forall>sh \<in> set (shard (planned d)). - (2 ^ 62) \<le> shard_size sh \<and> shard_size sh < 2 ^ 62))"

subsection \<open>The shrink action\<close>



subsection \<open>The state that an update receives\<close>


section \<open>Reference definitions\<close>

text \<open>
  The descriptor the spec (4.1) asks for: it carries the shard's flavor, volume, WAL
  volume (when one is given), network, availability zone and id, and the keypair of the
  cluster.
\<close>

definition descriptor :: "extractors \<Rightarrow> string \<Rightarrow> shard_raw \<Rightarrow> InstanceCreateOpts" where
  "descriptor ex kp sh =
     \<lparr>FlavorRef = flavor_id sh,
      Volume = Some \<lparr>Size = volume_size sh, VolumeType = volume_type sh\<rparr>,
      Nics = fst (extractDatabaseNetworks ex (network sh)),
      SecurityGroups = snd (extractDatabaseNetworks ex (network sh)),
      AvailabilityZone = availability_zone sh,
      Keypair = kp,
      ShardID = shard_id sh,
      Walvolume = (if wal_volume sh = [] then None
                   else map_option (\<lambda>w. \<lparr>WalSize = wal_size w, WalVolumeType = wal_volume_type w\<rparr>)
                          (extractDatabaseWalVolume ex (wal_volume sh)))\<rparr>"

text \<open>The helper reads the WAL volume of the shard, when the shard has one.\<close>

definition wal_ok :: "extractors \<Rightarrow> shard_raw \<Rightarrow> bool" where
  "wal_ok ex sh = (wal_volume sh \<noteq> [] \<longrightarrow> extractDatabaseWalVolume ex (wal_volume sh) \<noteq> None)"

text \<open>The descriptors of a list of (descriptor, size) pairs, group after group.\<close>

definition groups :: "(InstanceCreateOpts \<times> int) list \<Rightarrow> InstanceCreateOpts list" where
  "groups ps = concat (map (\<lambda>p. replicate (nat (snd p)) (fst p)) ps)"

text \<open>The size step as the source computes it, with the wrapped \<open>sizeChange\<close>; the plans
  built on it are compared with \<open>plan\<close> under \<open>sizes_fit\<close>.\<close>

definition code_size_plan :: "shard_raw \<Rightarrow> shard_raw \<Rightarrow> action list" where
  "code_size_plan old new =
     (if shard_size old \<noteq> shard_size new
      then (if sizeChange old new > 0 then [Grow (shard_id new)]
            else if sizeChange old new < 0 then [Shrink (shard_id new)]
            else [])
      else [])"

definition code_shard_plan :: "shard_raw \<Rightarrow> shard_raw \<Rightarrow> action list" where
  "code_shard_plan old new =
     (if volume_size old \<noteq> volume_size new then [ResizeVolume (shard_id new)] else []) @
     (if wal_volume old \<noteq> wal_volume new then [ResizeWalVolume (shard_id new)] else []) @
     (if flavor_id old \<noteq> flavor_id new then [ResizeFlavor (shard_id new)] else []) @
     code_size_plan old new"

definition code_plan :: "ResourceData \<Rightarrow> action list" where
  "code_plan d =
     top_plan (prior d) (planned d) @
     concat (map (\<lambda>(i, sh). code_shard_plan (prior_shard d i) sh) (enumerate 0 (shard (planned d))))"

text \<open>The shard blocks \<open>shs\<close> with their \<open>shrink_options\<close> replaced, block by block.\<close>

definition set_shrink_options :: "string list list \<Rightarrow> shard_raw list \<Rightarrow> shard_raw list" where
  "set_shrink_options optss shs = map (\<lambda>(sh, opts). sh\<lparr>shrink_options := opts\<rparr>) (zip shs optss)"

text \<open>The sentinels whose message names the shard.\<close>

definition shard_sentinels :: "sentinel set" where
  "shard_sentinels =
     {errDBClusterActionResizeWalVolumeExtract, errDBClusterActionGrow, errDBClusterActionShrink,
      errDBClusterActionShrinkWrongOptions, errDBClusterActionShrinkInstancesExtract,
      errDBClusterActionResizeVolume, errDBClusterActionResizeWalVolume,
      errDBClusterActionResizeFlavor}"

text \<open>The sentinels of the steps that every action shares: looking the cluster up,
  taking the shard out of it, and waiting for it.\<close>

definition generic_sentinels :: "sentinel set" where
  "generic_sentinels = {errDBClusterNotFound, errDBClusterShardNotFound, errDBClusterUpdateWait}"

text \<open>The words by which a diagnostic tells which operation failed; a generic sentinel
  has none.\<close>

fun operation_words :: "sentinel \<Rightarrow> string option" where
  "operation_words errDBClusterNotFound = None"
| "operation_words errDBClusterShardNotFound = None"
| "operation_words errDBClusterUpdateWait = None"
| "operation_words errDBClusterUpdateDiskAutoexpand = Some ''updating disk_autoexpand''"
| "operation_words errDBClusterUpdateDiskAutoexpandExtract = Some ''determine disk_autoexpand''"
| "operation_words errDBClusterUpdateWalDiskAutoexpand = Some ''updating wal_disk_autoexpand''"
| "operation_words errDBClusterUpdateWalDiskAutoexpandExtract =
     Some ''determine wal_disk_autoexpand''"
| "operation_words errDBClusterUpdateCloudMonitoring = Some ''updating cloud_monitoring_enabled''"
| "operation_words errDBClusterActionUpdateConfiguration = Some ''updating configuration''"
| "operation_words errDBClusterActionApplyCapabitilies = Some ''updating capabilities''"
| "operation_words errDBClusterActionApplyCapabilitiesExtract = Some ''extracting capabilities''"
| "operation_words errDBClusterActionResizeWalVolumeExtract = Some ''determine wal_volume''"
| "operation_words errDBClusterActionGrow = Some ''growing shard''"
| "operation_words errDBClusterActionShrink = Some ''shrinking shard''"
| "operation_words errDBClusterActionShrinkWrongOptions = Some ''invalid shrink options''"
| "operation_words errDBClusterActionShrinkInstancesExtract =
     Some ''determining instances to shrink''"
| "operation_words errDBClusterActionResizeVolume = Some ''resizing volume''"
| "operation_words errDBClusterActionResizeWalVolume = Some ''resizing wal_volume''"
| "operation_words errDBClusterActionResizeFlavor = Some ''changing flavor''"

text \<open>Every extract helper that the create path calls for the configuration \<open>c\<close>
  succeeds.\<close>

definition extract_ok :: "extractors \<Rightarrow> cluster_config \<Rightarrow> bool" where
  "extract_ok ex c =
     ((restore_point c \<noteq> [] \<longrightarrow> extractDatabaseRestorePoint ex (restore_point c) \<noteq> None) \<and>
      (datastore c \<noteq> [] \<longrightarrow> extractDatabaseDatastore ex (datastore c) \<noteq> None) \<and>
      (disk_autoexpand c \<noteq> [] \<longrightarrow> extractDatabaseAutoExpand ex (disk_autoexpand c) \<noteq> None) \<and>
      (wal_disk_autoexpand c \<noteq> [] \<longrightarrow>
         extractDatabaseAutoExpand ex (wal_disk_autoexpand c) \<noteq> None) \<and>
      (\<forall>sh \<in> set (shard c). wal_ok ex sh) \<and>
      (capabilities c \<noteq> [] \<longrightarrow> extractDatabaseCapabilities ex (capabilities c) \<noteq> None))"

text \<open>The four extract helpers of lines 811-851 succeed where they are called.\<close>

definition head_ok :: "extractors \<Rightarrow> cluster_config \<Rightarrow> bool" where
  "head_ok ex c =
     ((restore_point c \<noteq> [] \<longrightarrow> extractDatabaseRestorePoint ex (restore_point c) \<noteq> None) \<and>
      (datastore c \<noteq> [] \<longrightarrow> extractDatabaseDatastore ex (datastore c) \<noteq> None) \<and>
      (disk_autoexpand c \<noteq> [] \<longrightarrow> extractDatabaseAutoExpand ex (disk_autoexpand c) \<noteq> None) \<and>
      (wal_disk_autoexpand c \<noteq> [] \<longrightarrow>
         extractDatabaseAutoExpand ex (wal_disk_autoexpand c) \<noteq> None))"


section \<open>Example inputs\<close>

text \<open>Extract helpers that read the first block of a list.\<close>

definition ex0 :: extractors where
  "ex0 =
     \<lparr>extractDatabaseRestorePoint = (\<lambda>v. case v of [] \<Rightarrow> None | r # _ \<Rightarrow> Some r),
      extractDatabaseDatastore = (\<lambda>v. case v of [] \<Rightarrow> None | r # _ \<Rightarrow> Some r),
      extractDatabaseAutoExpand = (\<lambda>v. case v of [] \<Rightarrow> None | r # _ \<Rightarrow> Some r),
      extractDatabaseNetworks =
        (\<lambda>v. (map (\<lambda>n. \<lparr>NetUUID = uuid n, NetPort = port n, NetSubnetID = subnet_id n\<rparr>) v,
              concat (map security_groups v))),
      extractDatabaseWalVolume = (\<lambda>v. case v of [] \<Rightarrow> None | r # _ \<Rightarrow> Some r),
      extractDatabaseCapabilities = (\<lambda>v. Some v)\<rparr>"

definition net0 :: network_raw where
  "net0 = \<lparr>uuid = ''net-1'', port = [], subnet_id = ''sub-1'', security_groups = [''sg-1'']\<rparr>"

definition shard_A :: shard_raw where
  "shard_A =
     \<lparr>shard_id = ''A'', shard_size = 2, shrink_options = [], flavor_id = ''flavor-a'',
      volume_size = 10, volume_type = ''ssd'',
      wal_volume = [\<lparr>wal_size = 5, wal_volume_type = ''ssd''\<rparr>],
      network = [net0], availability_zone = ''az-1'', instances = []\<rparr>"

definition shard_B :: shard_raw where
  "shard_B =
     \<lparr>shard_id = ''B'', shard_size = 1, shrink_options = [], flavor_id = ''flavor-b'',
      volume_size = 20, volume_type = ''hdd'', wal_volume = [],
      network = [net0], availability_zone = ''az-2'', instances = []\<rparr>"

text \<open>A remote cluster with two instances in shard A, one in B and one in C.\<close>

definition insts_ABC :: "ClusterInstanceResp list" where
  "insts_ABC =
     [\<lparr>InstID = ''i-1'', InstShardID = ''A'', InstIP = [''10.0.0.1'']\<rparr>,
      \<lparr>InstID = ''i-2'', InstShardID = ''B'', InstIP = [''10.0.0.2'']\<rparr>,
      \<lparr>InstID = ''i-3'', InstShardID = ''C'', InstIP = [''10.0.0.3'']\<rparr>,
      \<lparr>InstID = ''i-4'', InstShardID = ''A'', InstIP = [''10.0.0.4'']\<rparr>]"

text \<open>A cluster of the shards A and B, and a desired configuration with another
  configuration group, a capability, and one instance more in shard B.\<close>

definition cfg0 :: cluster_config where
  "cfg0 =
     \<lparr>cluster_name = ''db'',
      datastore = [\<lparr>ds_version = ''23.8'', ds_type = ''clickhouse''\<rparr>],
      configuration_id = ''conf-1'', floating_ip_enabled = False, keypair = ''key-1'',
      disk_autoexpand = [], wal_disk_autoexpand = [], capabilities = [],
      restore_point = [], cloud_monitoring_enabled = False,
      shard = [shard_A, shard_B]\<rparr>"

definition cfg1 :: cluster_config where
  "cfg1 =
     cfg0\<lparr>configuration_id := ''conf-2'',
          capabilities := [\<lparr>cap_name = ''node_exporter'', cap_settings = []\<rparr>],
          shard := [shard_A, shard_B\<lparr>shard_size := 2\<rparr>]\<rparr>"

definition budgets0 :: "timeout_key \<Rightarrow> nat" where
  "budgets0 key = (case key of TimeoutCreate \<Rightarrow> 2400 | TimeoutDelete \<Rightarrow> 600 | _ \<Rightarrow> 1200)"

definition d01 :: ResourceData where
  "d01 = \<lparr>Id = ''c-1'', prior = cfg0, planned = cfg1, timeouts = budgets0\<rparr>"

definition g0 :: go_env where
  "g0 = \<lparr>sentinel_text = (\<lambda>s. ''cluster error''), Sprintf = (\<lambda>t. t)\<rparr>"

definition k0 :: db_constants where
  "k0 = \<lparr>dbInstanceDelay = 10, dbInstanceMinTimeout = 3, dbCreateTimeout = 3600,
         dbDeleteTimeout = 1800\<rparr>"

text \<open>A runner whose world is the list of the actions performed; growing a shard fails
  while the cluster is awaited.\<close>

definition run_fail_grow :: "action list runner" where
  "run_fail_grow updateCtx a w =
     (case a of
        Grow x \<Rightarrow> (w @ [a], Some (Sentinel errDBClusterUpdateWait))
      | _ \<Rightarrow> (w @ [a], None))"

text \<open>A cloud whose world is the list of the remote calls made.\<close>

definition cloud_log :: "string list cloud" where
  "cloud_log =
     \<lparr>clusters_Create = (\<lambda>createOpts w. (w @ [''clusters.Create''], Inr ''c-1'')),
      clusters_Delete = (\<lambda>clusterID w. (w @ [''clusters.Delete''], None)),
      WaitForStateContext = (\<lambda>stateConf w. (w @ [''WaitForStateContext''], None)),
      AttachConfigurationGroup = (\<lambda>clusterID conf w. (w @ [''AttachConfigurationGroup''], None)),
      ReadResource = (\<lambda>d w. (w @ [''Read''], [])),
      CheckDeleted = (\<lambda>d err msg. diag_Error (msg @ '': '' @ err))\<rparr>"


text \<open>A configuration whose datastore is not ClickHouse.\<close>

definition d_mysql :: ResourceData where
  "d_mysql =
     \<lparr>Id = [], prior = cfg0,
      planned = cfg0\<lparr>datastore := [\<lparr>ds_version = ''8.0'', ds_type = ''mysql''\<rparr>]\<rparr>,
      timeouts = budgets0\<rparr>"





text \<open>A cloud that leaves the world as it is.\<close>

definition cloud_idle :: "'w cloud" where
  "cloud_idle =
     \<lparr>clusters_Create = (\<lambda>createOpts w. (w, Inr ''c-1'')),
      clusters_Delete = (\<lambda>clusterID w. (w, None)),
      WaitForStateContext = (\<lambda>stateConf w. (w, None)),
      AttachConfigurationGroup = (\<lambda>clusterID conf w. (w, None)),
      ReadResource = (\<lambda>d w. (w, [])),
      CheckDeleted = (\<lambda>d err msg. diag_Error (msg @ '': '' @ err))\<rparr>"



section \<open>The loops of the create path\<close>

lemma fill_shard_ok:
  "k + n \<le> length xs \<Longrightarrow>
   fill_shard n v (xs, k) = Inr (take k xs @ replicate n v @ drop (k + n) xs, k + n)"
proof (induction n arbitrary: xs k)
  case 0
  then show ?case by simp
next
  case (Suc n)
  then have k: "k < length xs" by simp
  have "fill_shard (Suc n) v (xs, k) = fill_shard n v (xs[k := v], Suc k)"
    using k by simp
  also have "\<dots> = Inr (take (Suc k) (xs[k := v]) @ replicate n v @ drop (Suc k + n) (xs[k := v]), Suc k + n)"
    using Suc.prems by (intro Suc.IH) simp
  also have "take (Suc k) (xs[k := v]) = take k xs @ [v]"
    using k by (simp add: take_Suc_conv_app_nth)
  finally show ?case by (simp add: replicate_app_Cons_same)
qed

lemma fill_shard_overflow:
  "length xs < k + n \<Longrightarrow> k \<le> length xs \<Longrightarrow> fill_shard n v (xs, k) = Inl IndexOutOfRange"
proof (induction n arbitrary: xs k)
  case 0
  then show ?case by simp
next
  case (Suc n)
  show ?case
  proof (cases "k < length xs")
    case True
    then have "fill_shard (Suc n) v (xs, k) = fill_shard n v (xs[k := v], Suc k)" by simp
    also have "\<dots> = Inl IndexOutOfRange"
      using Suc.prems True by (intro Suc.IH) simp_all
    finally show ?thesis .
  next
    case False
    then show ?thesis by simp
  qed
qed

lemma fill_all_ok:
  "k + length (groups ps) \<le> length xs \<Longrightarrow>
   fill_all ps (xs, k) =
     Inr (take k xs @ groups ps @ drop (k + length (groups ps)) xs, k + length (groups ps))"
proof (induction ps arbitrary: xs k)
  case Nil
  then show ?case by (simp add: groups_def)
next
  case (Cons p ps)
  obtain v s where p: "p = (v, s)" by (cases p)
  let ?n = "nat s"
  have g: "groups (p # ps) = replicate ?n v @ groups ps"
    by (simp add: groups_def p)
  have le: "k + ?n \<le> length xs" using Cons.prems by (simp add: g)
  let ?xs' = "take k xs @ replicate ?n v @ drop (k + ?n) xs"
  have len: "length ?xs' = length xs" using le by simp
  have step: "fill_shard ?n v (xs, k) = Inr (?xs', k + ?n)"
    using le by (rule fill_shard_ok)
  have rest: "fill_all ps (?xs', k + ?n) =
      Inr (take (k + ?n) ?xs' @ groups ps @ drop (k + ?n + length (groups ps)) ?xs',
           k + ?n + length (groups ps))"
  proof (rule Cons.IH)
    have "k + ?n + length (groups ps) \<le> length xs"
      using Cons.prems unfolding g by simp
    then show "k + ?n + length (groups ps) \<le> length ?xs'"
      unfolding len .
  qed
  have t: "take (k + ?n) ?xs' = take k xs @ replicate ?n v"
    using le by simp
  have d: "drop (k + ?n + length (groups ps)) ?xs' = drop (k + ?n + length (groups ps)) xs"
    using le by (simp add: add.commute add.left_commute)
  show ?case
    unfolding p fill_all.simps step sum.case rest t d
    by (simp add: g[unfolded p] add.assoc)
qed


lemma fill_all_overflow:
  "length xs < k + length (groups ps) \<Longrightarrow> k \<le> length xs \<Longrightarrow>
   fill_all ps (xs, k) = Inl IndexOutOfRange"
proof (induction ps arbitrary: xs k)
  case Nil
  then show ?case by (simp add: groups_def)
next
  case (Cons p ps)
  obtain v s where p: "p = (v, s)" by (cases p)
  let ?n = "nat s"
  have g: "groups (p # ps) = replicate ?n v @ groups ps"
    by (simp add: groups_def p)
  show ?case
  proof (cases "k + ?n \<le> length xs")
    case True
    let ?xs' = "take k xs @ replicate ?n v @ drop (k + ?n) xs"
    have len: "length ?xs' = length xs" using True by simp
    have step: "fill_shard ?n v (xs, k) = Inr (?xs', k + ?n)"
      using True by (rule fill_shard_ok)
    have "fill_all ps (?xs', k + ?n) = Inl IndexOutOfRange"
    proof (rule Cons.IH)
      have "length xs < k + ?n + length (groups ps)"
        using Cons.prems(1) unfolding g by simp
      then show "length ?xs' < k + ?n + length (groups ps)" unfolding len .
      show "k + ?n \<le> length ?xs'" unfolding len by (rule True)
    qed
    then show ?thesis unfolding p fill_all.simps step sum.case by simp
  next
    case False
    then have "fill_shard ?n v (xs, k) = Inl IndexOutOfRange"
      using Cons.prems(2) by (intro fill_shard_overflow) simp_all
    then show ?thesis unfolding p fill_all.simps by simp
  qed
qed

lemma wrap64_id: "- (2 ^ 63) \<le> x \<Longrightarrow> x < 2 ^ 63 \<Longrightarrow> wrap64 x = x"
  by (simp add: wrap64_def)

lemma shardInfo_of_ok:
  "wal_ok ex sh \<Longrightarrow> shardInfo_of ex sh = Inr (descriptor ex [] sh)"
  by (auto simp: wal_ok_def shardInfo_of_def descriptor_def zero_InstanceCreateOpts_def
           split: prod.splits option.splits)


lemma descriptor_Keypair: "(descriptor ex [] sh)\<lparr>Keypair := kp\<rparr> = descriptor ex kp sh"
  by (simp add: descriptor_def)

lemma shard_loop_ok:
  "\<forall>sh \<in> set shs. wal_ok ex sh \<Longrightarrow>
   shard_loop ex shs (c, infos, sizes) =
     Inr (foldl (\<lambda>c s. wrap64 (c + s)) c (map shard_size shs),
          infos @ map (descriptor ex []) shs, sizes @ map shard_size shs)"
  by (induction shs arbitrary: c infos sizes) (simp_all add: shardInfo_of_ok)


lemma count_no_wrap:
  "0 \<le> c \<Longrightarrow> \<forall>s \<in> set ss. 0 \<le> s \<Longrightarrow> c + sum_list ss \<le> maxInt \<Longrightarrow>
   foldl (\<lambda>c s. wrap64 (c + s)) c ss = c + sum_list ss"
proof (induction ss arbitrary: c)
  case Nil
  then show ?case by simp
next
  case (Cons s ss)
  have nn: "0 \<le> sum_list ss" using Cons.prems(2) by (simp add: sum_list_nonneg)
  have s0: "0 \<le> s" using Cons.prems(2) by simp
  have "c + s < 2 ^ 63" using Cons.prems(3) nn by (simp add: maxInt_def)
  then have w: "wrap64 (c + s) = c + s"
    using Cons.prems(1) s0 by (intro wrap64_id) simp_all
  have "foldl (\<lambda>c s. wrap64 (c + s)) (c + s) ss = c + s + sum_list ss"
    using Cons.prems s0 by (intro Cons.IH) simp_all
  then show ?case by (simp add: w add.assoc)
qed

lemma length_groups_zip:
  "\<forall>sh \<in> set shs. 0 \<le> shard_size sh \<Longrightarrow>
   int (length (groups (zip (map f shs) (map shard_size shs)))) = sum_list (map shard_size shs)"
  by (induction shs) (simp_all add: groups_def)

lemma groups_zip:
  "groups (zip (map f shs) (map shard_size shs)) =
   concat (map (\<lambda>sh. replicate (nat (shard_size sh)) (f sh)) shs)"
  by (induction shs) (simp_all add: groups_def)

lemma create_instances_ok:
  assumes sizes: "\<forall>sh \<in> set shs. 0 \<le> shard_size sh"
      and total: "sum_list (map shard_size shs) \<le> maxInt"
      and wal: "\<forall>sh \<in> set shs. wal_ok ex sh"
  shows "create_instances ex kp shs =
           Returns (concat (map (\<lambda>sh. replicate (nat (shard_size sh)) (descriptor ex kp sh)) shs))"
proof -
  let ?n = "sum_list (map shard_size shs)"
  let ?ps = "zip (map (descriptor ex kp) shs) (map shard_size shs)"
  have cnt: "foldl (\<lambda>c s. wrap64 (c + s)) 0 (map shard_size shs) = ?n"
    using count_no_wrap [of 0 "map shard_size shs"] sizes total by simp
  have loop: "shard_loop ex shs (0, [], []) =
                Inr (?n, map (descriptor ex []) shs, map shard_size shs)"
    using shard_loop_ok [OF wal, of 0 "[]" "[]"] cnt by simp
  have kp: "(\<lambda>info. info\<lparr>Keypair := kp\<rparr>) \<circ> descriptor ex [] = descriptor ex kp"
    by (rule ext) (simp add: descriptor_Keypair)
  have n0: "0 \<le> ?n" using sizes by (intro sum_list_nonneg) auto
  have len: "length (groups ?ps) = nat ?n"
    using length_groups_zip [OF sizes, of "descriptor ex kp"] by linarith
  have "fill_all ?ps (replicate (nat ?n) zero_InstanceCreateOpts, 0) =
          Inr (take 0 (replicate (nat ?n) zero_InstanceCreateOpts) @ groups ?ps @
               drop (0 + length (groups ?ps)) (replicate (nat ?n) zero_InstanceCreateOpts),
               0 + length (groups ?ps))"
    by (rule fill_all_ok) (simp add: len)
  then have fill: "fill_all ?ps (replicate (nat ?n) zero_InstanceCreateOpts, 0) =
          Inr (groups ?ps, nat ?n)"
    by (simp add: len)
  show ?thesis
    unfolding create_instances_def loop
    using n0 fill by (simp add: kp groups_zip)
qed


lemma createOpts_head_ok:
  "head_ok ex c \<Longrightarrow> \<exists>o3. createOpts_head ex c = Inr o3"
  by (auto simp: head_ok_def createOpts_head_def bind_sum_def set_restore_point_def
        set_datastore_def set_disk_autoexpand_def set_wal_disk_autoexpand_def)


lemma extract_ok_parts:
  "extract_ok ex c \<longleftrightarrow>
     head_ok ex c \<and> (\<forall>sh \<in> set (shard c). wal_ok ex sh) \<and>
     (capabilities c \<noteq> [] \<longrightarrow> extractDatabaseCapabilities ex (capabilities c) \<noteq> None)"
  by (auto simp: extract_ok_def head_ok_def)

lemma createOpts_of_ok:
  assumes sizes: "\<forall>sh \<in> set (shard (planned d)). 0 \<le> shard_size sh"
      and total: "sum_list (map shard_size (shard (planned d))) \<le> maxInt"
      and ok: "extract_ok ex (planned d)"
  shows "\<exists>createOpts caps.
           createOpts_of ex d = Returns (createOpts, caps) \<and>
           Instances createOpts =
             concat (map (\<lambda>sh. replicate (nat (shard_size sh))
                                 (descriptor ex (keypair (planned d)) sh))
                         (shard (planned d)))"
proof -
  from ok have h: "head_ok ex (planned d)" and wal: "\<forall>sh \<in> set (shard (planned d)). wal_ok ex sh"
    and caps: "capabilities (planned d) \<noteq> [] \<longrightarrow>
                 extractDatabaseCapabilities ex (capabilities (planned d)) \<noteq> None"
    by (simp_all add: extract_ok_parts)
  from createOpts_head_ok [OF h] obtain o3 where o3: "createOpts_head ex (planned d) = Inr o3" ..
  note inst = create_instances_ok [OF sizes total wal, of "keypair (planned d)"]
  show ?thesis
  proof (cases "capabilities (planned d) = []")
    case True
    then show ?thesis by (simp add: createOpts_of_def Let_def o3 inst)
  next
    case False
    with caps obtain cs where "extractDatabaseCapabilities ex (capabilities (planned d)) = Some cs"
      by auto
    with False show ?thesis by (simp add: createOpts_of_def Let_def o3 inst)
  qed
qed



section \<open>The order and the content of the rebuilt shard list\<close>

lemma declared_match_iff: "declared_match rawShards fSh \<longleftrightarrow> shard_id fSh \<in> shard_id ` set rawShards"
  by (induction rawShards) auto

lemma OuterLoop_filter:
  "OuterLoop rawShards xs (shards, newShards) =
     (shards @ filter (declared_match rawShards) xs,
      newShards @ filter (\<lambda>f. \<not> declared_match rawShards f) xs)"
  by (induction xs arbitrary: shards newShards) simp_all

lemma ordered_shards_filter:
  "ordered_shards rawShards fl =
     filter (declared_match rawShards) (sort_key shard_id fl) @
     filter (\<lambda>f. \<not> declared_match rawShards f) (sort_key shard_id fl)"
  by (simp add: ordered_shards_def OuterLoop_filter)

lemma mset_ordered_shards: "mset (ordered_shards rawShards fl) = mset fl"
  by (simp add: ordered_shards_filter)

lemma overlay_shard_keeps:
  "shard_id (overlay_shard wo raw i sh) = shard_id sh"
  "shard_size (overlay_shard wo raw i sh) = shard_size sh"
  "instances (overlay_shard wo raw i sh) = instances sh"
  by (simp_all add: overlay_shard_def Let_def)

lemma map_read_shards:
  assumes "\<And>i sh. f (overlay_shard wo raw i sh) = f sh"
  shows "map f (read_shards wo raw fl) = map f (ordered_shards raw fl)"
proof -
  have "map f (read_shards wo raw fl) = map (f \<circ> snd) (enumerate 0 (ordered_shards raw fl))"
    by (simp add: read_shards_def Let_def assms split_def comp_def)
  also have "\<dots> = map f (map snd (enumerate 0 (ordered_shards raw fl)))"
    by (simp only: map_map)
  also have "\<dots> = map f (ordered_shards raw fl)"
    by (simp only: map_snd_enumerate)
  finally show ?thesis .
qed

lemma flattened_ids:
  "map shard_id (flattenDatabaseClusterShards (getDatabaseClusterShardInstances insts))
     = remdups (map InstShardID insts)"
  by (simp add: flattenDatabaseClusterShards_def getDatabaseClusterShardInstances_def
        flattenDatabaseClusterShard_def comp_def)

lemma flattened_sizes:
  "sh \<in> set (flattenDatabaseClusterShards (getDatabaseClusterShardInstances insts)) \<Longrightarrow>
   shard_size sh = int (length (filter (\<lambda>inst. InstShardID inst = shard_id sh) insts))"
  by (auto simp: flattenDatabaseClusterShards_def getDatabaseClusterShardInstances_def
        flattenDatabaseClusterShard_def)

text \<open>The stored order: the shards with a declared block in ascending order of their ids,
  then the others in ascending order of their ids.\<close>

lemma ordered_shards_by_id:
  "\<exists>known new.
     ordered_shards rawShards fl = known @ new \<and>
     sorted (map shard_id known) \<and> sorted (map shard_id new) \<and>
     shard_id ` set known \<subseteq> shard_id ` set rawShards \<and>
     shard_id ` set new \<inter> shard_id ` set rawShards = {}"
proof -
  let ?s = "sort_key shard_id fl"
  let ?known = "filter (declared_match rawShards) ?s"
  let ?new = "filter (\<lambda>f. \<not> declared_match rawShards f) ?s"
  have s: "sorted (map shard_id ?s)" by (rule sorted_sort_key)
  have "sorted (map shard_id ?known)" and "sorted (map shard_id ?new)"
    using s by (rule sorted_filter)+
  moreover have "shard_id ` set ?known \<subseteq> shard_id ` set rawShards"
    and "shard_id ` set ?new \<inter> shard_id ` set rawShards = {}"
    by (auto simp: declared_match_iff)
  ultimately show ?thesis
    using ordered_shards_filter [of rawShards fl] by blast
qed

section \<open>The update as the run of a plan\<close>

lemma then_do_skip_left: "then_do skip_step f = f"
  by (rule ext) (simp add: then_do_def skip_step_def)

lemma then_do_skip_right: "then_do f skip_step = f"
  by (rule ext) (auto simp: then_do_def skip_step_def split: prod.splits option.splits)

lemma then_do_assoc: "then_do (then_do f h) j = then_do f (then_do h j)"
  by (rule ext) (auto simp: then_do_def split: prod.splits option.splits)

lemma run_plan_Nil: "run_plan g run c cid [] = skip_step"
  by (rule ext) (simp add: skip_step_def)

lemma run_plan_Cons:
  "run_plan g run c cid (a # as) =
     then_do (call_action g run c cid (shard_of a) a) (run_plan g run c cid as)"
  by (rule ext) (simp add: then_do_def)

lemma run_plan_single: "run_plan g run c cid [a] = call_action g run c cid (shard_of a) a"
  by (simp add: run_plan_Cons run_plan_Nil then_do_skip_right)

lemma run_plan_append:
  "run_plan g run c cid (xs @ ys) = then_do (run_plan g run c cid xs) (run_plan g run c cid ys)"
  by (induction xs) (simp_all add: run_plan_Nil run_plan_Cons then_do_skip_left then_do_assoc)

lemma when_changed_plan:
  "sid = shard_of a \<Longrightarrow>
   when_changed b (call_action g run c cid sid a) = run_plan g run c cid (if b then [a] else [])"
  by (simp add: when_changed_def run_plan_single run_plan_Nil)

lemma size_step_plan:
  "when_changed (shard_size old \<noteq> shard_size sh)
     (if sizeChange old sh > 0
      then call_action g run c cid (shard_id sh) (Grow (shard_id sh))
      else if sizeChange old sh < 0
      then call_action g run c cid (shard_id sh) (Shrink (shard_id sh))
      else skip_step) = run_plan g run c cid (code_size_plan old sh)"
  by (simp add: when_changed_def code_size_plan_def run_plan_single run_plan_Nil)

lemma shard_body_plan:
  "shard_body g run c cid d i sh = run_plan g run c cid (code_shard_plan (prior_shard d i) sh)"
  unfolding shard_body_def Let_def code_shard_plan_def run_plan_append size_step_plan
  by (simp only: when_changed_plan shard_of.simps)

lemma shards_loop_step:
  "shards_loop g run c cid d i (sh # rest) =
     then_do (shard_body g run c cid d i sh) (shards_loop g run c cid d (Suc i) rest)"
  by (rule ext) (simp add: then_do_def)

lemma shards_loop_plan:
  "shards_loop g run c cid d i shs =
     run_plan g run c cid
       (concat (map (\<lambda>(j, sh). code_shard_plan (prior_shard d j) sh) (enumerate i shs)))"
proof (induction shs arbitrary: i)
  case Nil
  show ?case by (rule ext) simp
next
  case (Cons sh shs)
  show ?case
    unfolding shards_loop_step Cons.IH shard_body_plan
    by (simp add: run_plan_append)
qed

lemma update_actions_plan:
  "update_actions g k run d = run_plan g run (updateCtx_of k d) (Id d) (code_plan d)"
  unfolding update_actions_def Let_def code_plan_def top_plan_def run_plan_append shards_loop_plan
  by (simp only: when_changed_plan shard_of.simps then_do_assoc)

lemma code_size_plan_eq:
  assumes "- (2 ^ 62) \<le> shard_size old" "shard_size old < 2 ^ 62"
          "- (2 ^ 62) \<le> shard_size new" "shard_size new < 2 ^ 62"
  shows "code_size_plan old new = size_plan old new"
proof -
  have "wrap64 (shard_size new - shard_size old) = shard_size new - shard_size old"
    using assms by (intro wrap64_id) simp_all
  then show ?thesis
    by (auto simp: code_size_plan_def size_plan_def sizeChange_def)
qed

lemma prior_shard_fit:
  "sizes_fit d \<Longrightarrow> - (2 ^ 62) \<le> shard_size (prior_shard d i) \<and> shard_size (prior_shard d i) < 2 ^ 62"
  by (auto simp: sizes_fit_def prior_shard_def zero_shard_def)

lemma code_plan_eq: 
  assumes "sizes_fit d"
  shows "code_plan d = plan d"
proof -
  have "code_shard_plan (prior_shard d i) sh = shard_plan (prior_shard d i) sh"
    if "sh \<in> set (shard (planned d))" for i sh
    using that assms prior_shard_fit [OF assms, of i]
    by (simp add: code_shard_plan_def shard_plan_def code_size_plan_eq sizes_fit_def)
  then have "map (\<lambda>(i, sh). code_shard_plan (prior_shard d i) sh) (enumerate 0 (shard (planned d)))
           = map (\<lambda>(i, sh). shard_plan (prior_shard d i) sh) (enumerate 0 (shard (planned d)))"
    by (intro map_cong refl) (auto simp: in_set_enumerate_eq)
  then show ?thesis unfolding code_plan_def plan_def by (rule arg_cong)
qed

lemma call_action_traced:
  "call_action g (traced run) c cid sid a (w, tr) =
     (case run c a w of
        (w', None) \<Rightarrow> ((w', tr @ [(c, a, None)]), None)
      | (w', Some err) \<Rightarrow>
          ((w', tr @ [(c, a, Some err)]),
           Some (databaseClusterWithShardsUpdateProcessError g err cid sid)))"
  by (simp add: call_action_def traced_def split: prod.splits option.splits)

text \<open>The traced run and the plain run agree on the world and the result.\<close>
lemma run_plan_traced_same:
  "(case run_plan g (traced run) c cid as (w, tr) of ((w', tr'), r) \<Rightarrow> (w', r))
     = run_plan g run c cid as w"
proof (induction as arbitrary: w tr)
  case Nil
  show ?case by simp
next
  case (Cons a as)
  obtain w1 r1 where r: "run c a w = (w1, r1)" by (cases "run c a w")
  show ?case
  proof (cases r1)
    case None
    then show ?thesis
      using Cons.IH [of w1 "tr @ [(c, a, None)]"] r
      by (simp add: call_action_traced) (simp add: call_action_def)
  next
    case (Some err)
    then show ?thesis using r
      by (simp add: call_action_traced) (simp add: call_action_def)
  qed
qed

lemma run_plan_traced_log:
  "run_plan g (traced run) c cid as (w, tr) = ((w', tr'), r) \<Longrightarrow>
   (case r of
      None \<Rightarrow> tr' = tr @ map (\<lambda>a. (c, a, None)) as
    | Some ds \<Rightarrow>
        (\<exists>n err. n < length as \<and>
           tr' = tr @ map (\<lambda>a. (c, a, None)) (take n as) @ [(c, as ! n, Some err)] \<and>
           ds = databaseClusterWithShardsUpdateProcessError g err cid (shard_of (as ! n))))"
proof (induction as arbitrary: w tr)
  case Nil
  then show ?case by simp
next
  case (Cons a as)
  obtain w1 r1 where r: "run c a w = (w1, r1)" by (cases "run c a w")
  show ?case
  proof (cases r1)
    case None
    with Cons.prems r have
      rest: "run_plan g (traced run) c cid as (w1, tr @ [(c, a, None)]) = ((w', tr'), r)"
      by (simp add: call_action_traced)
    note ih = Cons.IH [OF rest]
    show ?thesis
    proof (cases r)
      case None
      with ih show ?thesis by simp
    next
      case (Some ds)
      with ih obtain n err where n: "n < length as"
        and t: "tr' = (tr @ [(c, a, None)]) @ map (\<lambda>a. (c, a, None)) (take n as) @ [(c, as ! n, Some err)]"
        and d: "ds = databaseClusterWithShardsUpdateProcessError g err cid (shard_of (as ! n))"
        by auto
      have "Suc n < length (a # as) \<and>
            tr' = tr @ map (\<lambda>a. (c, a, None)) (take (Suc n) (a # as)) @ [(c, (a # as) ! Suc n, Some err)] \<and>
            ds = databaseClusterWithShardsUpdateProcessError g err cid (shard_of ((a # as) ! Suc n))"
        using n t d by simp
      then show ?thesis unfolding Some option.case by blast
    qed
  next
    case (Some err)
    with Cons.prems r have
      "w' = w1" "tr' = tr @ [(c, a, Some err)]"
      "r = Some (databaseClusterWithShardsUpdateProcessError g err cid (shard_of a))"
      by (simp_all add: call_action_traced)
    then have "0 < length (a # as) \<and>
            tr' = tr @ map (\<lambda>a. (c, a, None)) (take 0 (a # as)) @ [(c, (a # as) ! 0, Some err)] \<and>
            the r = databaseClusterWithShardsUpdateProcessError g err cid (shard_of ((a # as) ! 0))"
      by simp
    then show ?thesis
      using \<open>r = Some _\<close> by (auto simp del: take_0 nth_Cons_0 intro!: exI)
  qed
qed

lemma run_plan_succeed:
  "run_plan g (traced (\<lambda>c a w. (h c a w, None))) c cid as (w, tr) =
     ((foldl (\<lambda>w a. h c a w) w as, tr @ map (\<lambda>a. (c, a, None)) as), None)"
  by (induction as arbitrary: w tr) (simp_all add: call_action_traced)

lemma emitted_code_plan: "emitted d = code_plan d"
  by (simp add: emitted_def attempted_def update_actions_plan run_plan_succeed comp_def)

lemma emitted_plan: "sizes_fit d \<Longrightarrow> emitted d = plan d"
  by (simp add: emitted_code_plan code_plan_eq)

lemma concat_enumerate_empty:
  assumes "\<And>j. j < length xs \<Longrightarrow> f (n + j) (xs ! j) = []"
  shows "concat (map (\<lambda>(j, x). f j x) (enumerate n xs)) = []"
  using assms
proof (induction xs arbitrary: n)
  case Nil
  show ?case by simp
next
  case (Cons x xs)
  have h: "f n x = []" using Cons.prems [of 0] by simp
  have "concat (map (\<lambda>(j, x). f j x) (enumerate (Suc n) xs)) = []"
  proof (rule Cons.IH)
    fix j assume "j < length xs"
    then show "f (Suc n + j) (xs ! j) = []" using Cons.prems [of "Suc j"] by simp
  qed
  then show ?case by (simp add: h)
qed

lemma concat_enumerate_single:
  assumes "i < length xs"
      and "\<And>j. j < length xs \<Longrightarrow> j \<noteq> i \<Longrightarrow> f (n + j) (xs ! j) = []"
  shows "concat (map (\<lambda>(j, x). f j x) (enumerate n xs)) = f (n + i) (xs ! i)"
  using assms
proof (induction xs arbitrary: n i)
  case Nil
  then show ?case by simp
next
  case (Cons x xs)
  show ?case
  proof (cases i)
    case 0
    have "concat (map (\<lambda>(j, x). f j x) (enumerate (Suc n) xs)) = []"
    proof (rule concat_enumerate_empty)
      fix j assume "j < length xs"
      then show "f (Suc n + j) (xs ! j) = []" using Cons.prems(2) [of "Suc j"] 0 by simp
    qed
    then show ?thesis by (simp add: 0)
  next
    case (Suc i')
    have h: "f n x = []" using Cons.prems(2) [of 0] Suc by simp
    have "concat (map (\<lambda>(j, x). f j x) (enumerate (Suc n) xs)) = f (Suc n + i') (xs ! i')"
    proof (rule Cons.IH)
      show "i' < length xs" using Cons.prems(1) Suc by simp
      fix j assume "j < length xs" "j \<noteq> i'"
      then show "f (Suc n + j) (xs ! j) = []" using Cons.prems(2) [of "Suc j"] Suc by simp
    qed
    then show ?thesis by (simp add: h Suc)
  qed
qed

lemma plan_single_shard:
  assumes i: "i < length (shard (planned d))"
      and others: "\<And>j. j < length (shard (planned d)) \<Longrightarrow> j \<noteq> i \<Longrightarrow>
                     shard_plan (prior_shard d j) (shard (planned d) ! j) = []"
  shows "plan d = top_plan (prior d) (planned d) @ shard_plan (prior_shard d i) (shard (planned d) ! i)"
  using concat_enumerate_single [of i "shard (planned d)" "\<lambda>j sh. shard_plan (prior_shard d j) sh" 0]
    i others
  by (simp add: plan_def)

lemma code_shard_plan_shrink_options:
  "code_shard_plan old (sh\<lparr>shrink_options := opts\<rparr>) = code_shard_plan old sh"
  by (simp add: code_shard_plan_def code_size_plan_def sizeChange_def)

lemma code_shard_plan_same: "code_shard_plan sh sh = []"
  by (simp add: code_shard_plan_def code_size_plan_def)

lemma length_set_shrink_options:
  "length optss = length shs \<Longrightarrow> length (set_shrink_options optss shs) = length shs"
  by (simp add: set_shrink_options_def)

lemma nth_set_shrink_options:
  "length optss = length shs \<Longrightarrow> j < length shs \<Longrightarrow>
   set_shrink_options optss shs ! j = (shs ! j)\<lparr>shrink_options := optss ! j\<rparr>"
  by (simp add: set_shrink_options_def)

lemma shard_plans_shrink_options:
  assumes "length optss = length shs"
  shows "map (\<lambda>(j, sh). code_shard_plan (f j) sh) (enumerate n (set_shrink_options optss shs))
       = map (\<lambda>(j, sh). code_shard_plan (f j) sh) (enumerate n shs)"
  using assms
  by (intro nth_equalityI)
     (simp_all add: length_set_shrink_options nth_enumerate_eq nth_set_shrink_options
        code_shard_plan_shrink_options)

lemma code_plan_shrink_options:
  assumes "length optss = length (shard (planned d))"
  shows "code_plan (d\<lparr>planned := (planned d)\<lparr>shard := set_shrink_options optss (shard (planned d))\<rparr>\<rparr>)
           = code_plan d"
proof -
  let ?d = "d\<lparr>planned := (planned d)\<lparr>shard := set_shrink_options optss (shard (planned d))\<rparr>\<rparr>"
  have p: "prior_shard ?d = prior_shard d"
    by (rule ext) (simp add: prior_shard_def)
  have t: "top_plan (prior ?d) (planned ?d) = top_plan (prior d) (planned d)"
    by (simp add: top_plan_def)
  show ?thesis
    unfolding code_plan_def p t
    using shard_plans_shrink_options [OF assms, of "prior_shard d" 0] by simp
qed

lemma code_plan_unchanged:
  assumes "prior d = planned d"
  shows "code_plan d = []"
proof -
  have "concat (map (\<lambda>(j, sh). code_shard_plan (prior_shard d j) sh)
                  (enumerate 0 (shard (planned d)))) = []"
  proof (rule concat_enumerate_empty)
    fix j assume "j < length (shard (planned d))"
    then show "code_shard_plan (prior_shard d (0 + j)) (shard (planned d) ! j) = []"
      using assms by (simp add: prior_shard_def code_shard_plan_same)
  qed
  then show ?thesis using assms by (simp add: code_plan_def top_plan_def)
qed

lemma code_plan_only_shrink_options:
  assumes "length optss = length (shard c)"
  shows "code_plan \<lparr>Id = cid, prior = c,
                    planned = c\<lparr>shard := set_shrink_options optss (shard c)\<rparr>, timeouts = t\<rparr> = []"
proof -
  let ?d = "\<lparr>Id = cid, prior = c, planned = c, timeouts = t\<rparr>"
  have "code_plan (?d\<lparr>planned := (planned ?d)\<lparr>shard := set_shrink_options optss (shard (planned ?d))\<rparr>\<rparr>)
          = code_plan ?d"
    by (rule code_plan_shrink_options) (simp add: assms)
  then show ?thesis by (simp add: code_plan_unchanged)
qed

lemma attempted_run_plan:
  "attempted g k run d w =
     snd (fst (run_plan g (traced run) (updateCtx_of k d) (Id d) (code_plan d) (w, [])))"
  by (simp add: attempted_def update_actions_plan)

lemma d01_code_plan: "code_plan d01 = [UpdateConfiguration, ApplyCapabilities, Grow ''B'']"
  by (simp add: code_plan_def d01_def cfg0_def cfg1_def top_plan_def
          code_shard_plan_def code_size_plan_def sizeChange_def wrap64_def
          prior_shard_def shard_A_def shard_B_def enumerate_eq_zip)












lemma waits_of_create_ok:
  "createOpts_of ex d = Returns (createOpts, caps) \<Longrightarrow>
   clusters_Create cl createOpts w = (w1, Inr clusterID) \<Longrightarrow>
   waits_of_create ex k cl d w = [create_stateConf k d clusterID caps]"
  by (simp add: waits_of_create_def resourceDatabaseClusterWithShardsCreate_def create_remote_def
        create_wait_attach_read_def recording_def split: prod.splits option.splits)

lemma waits_of_create_budget:
  "conf \<in> set (waits_of_create ex k cl d w) \<Longrightarrow> Timeout conf = timeouts d TimeoutCreate"
  by (auto simp: waits_of_create_def resourceDatabaseClusterWithShardsCreate_def create_remote_def
        create_wait_attach_read_def recording_def create_stateConf_def
        split: outcome.splits prod.splits sum.splits option.splits if_splits)

lemma waits_of_delete_ok:
  "clusters_Delete cl (Id d) w = (w1, None) \<Longrightarrow>
   waits_of_delete k cl d w = [delete_stateConf k d]"
  by (simp add: waits_of_delete_def resourceDatabaseClusterWithShardsDelete_def recording_def
        split: prod.splits option.splits)

lemma waits_of_delete_budget:
  "conf \<in> set (waits_of_delete k cl d w) \<Longrightarrow> Timeout conf = timeouts d TimeoutDelete"
  by (auto simp: waits_of_delete_def resourceDatabaseClusterWithShardsDelete_def recording_def
        delete_stateConf_def split: prod.splits option.splits)

lemma attempted_context:
  assumes "c \<in> set (attempted g k run d w)"
  shows "fst c = updateCtx_of k d"
proof -
  obtain w' tr r where res:
    "run_plan g (traced run) (updateCtx_of k d) (Id d) (code_plan d) (w, []) = ((w', tr), r)"
    by (metis surj_pair)
  have tr: "attempted g k run d w = tr"
    by (simp add: attempted_run_plan res)
  show ?thesis
  proof (cases r)
    case None
    with run_plan_traced_log [OF res] assms show ?thesis by (auto simp: tr)
  next
    case (Some ds)
    with run_plan_traced_log [OF res] assms show ?thesis by (auto simp: tr)
  qed
qed

section \<open>The text of the diagnostic\<close>

lemma strings_Replace1_prefix: "strings_Replace1 (old @ rest) old new = new @ rest"
proof (cases "old @ rest")
  case Nil
  then show ?thesis by simp
next
  case (Cons c s)
  have p: "prefix old (c # s)" unfolding Cons [symmetric] by simp
  have "drop (length old) (c # s) = rest" unfolding Cons [symmetric] by simp
  then show ?thesis unfolding Cons using p by simp
qed

lemma strings_Replace1_self: "strings_Replace1 s s new = new"
  using strings_Replace1_prefix [of s "[]" new] by simp

lemma errMsg_of_Sentinel: "errMsg_of g (Sentinel s) cid sid = sentinel_message s cid sid"
  by (simp add: errMsg_of_def strings_Replace1_self)

lemma errMsg_of_Wrapped:
  "errMsg_of g (Wrapped (sentinel_text g s @ cause) (Sentinel s)) cid sid
     = sentinel_message s cid sid @ cause"
  by (simp add: errMsg_of_def strings_Replace1_prefix)

lemma errMsg_of_Plain: "errMsg_of g (Plain t) cid sid = t"
  by (simp add: errMsg_of_def strings_Replace1_self)

lemma sentinel_message_cluster: "sublist cid (sentinel_message s cid sid)"
proof -
  have e: "sublist cid (a @ b @ cid)" for a b :: string
    using sublist_append_leftI [of cid "a @ b"] by simp
  have m: "sublist cid (a @ b @ cid @ c)" for a b c :: string
    using sublist_appendI [of cid "a @ b" c] by simp
  have e4: "sublist cid (a @ x @ b @ c @ cid)" for a b c x :: string
    using sublist_append_leftI [of cid "a @ x @ b @ c"] by simp
  show ?thesis
    by (cases s) (simp_all only: sentinel_message.simps e m e4)
qed

lemma sentinel_message_shard:
  "s \<in> shard_sentinels \<Longrightarrow> sublist sid (sentinel_message s cid sid)"
proof -
  have m: "sublist sid (a @ sid @ c)" for a c :: string
    by (rule sublist_appendI)
  assume "s \<in> shard_sentinels"
  then show ?thesis
    unfolding shard_sentinels_def
    by (elim insertE emptyE) (simp_all only: sentinel_message.simps m)
qed

lemma sentinel_message_no_shard:
  "s \<notin> shard_sentinels \<Longrightarrow> sentinel_message s cid sid = sentinel_message s cid sid'"
  by (cases s) (simp_all add: shard_sentinels_def)

lemma sentinel_message_words:
  "operation_words s = Some ws \<Longrightarrow> sublist ws (sentinel_message s cid sid)"
  by (cases s) (auto simp: sublist_Cons_right)

lemma operation_words_None: "operation_words s = None \<longleftrightarrow> s \<in> generic_sentinels"
  by (cases s) (simp_all add: generic_sentinels_def)

lemma generic_messages:
  "sentinel_message errDBClusterNotFound cid sid
     = ''error retrieving vkcs_db_cluster_with_shards '' @ cid"
  "sentinel_message errDBClusterShardNotFound cid sid
     = ''unable to extract shard from vkcs_db_cluster_with_shards '' @ cid"
  "sentinel_message errDBClusterUpdateWait cid sid
     = ''error waiting for vkcs_db_cluster_with_shards '' @ cid @ '' to become ready''"
  by (simp_all add: cluster_kind_def)

lemma update_actions_traced_same:
  "update_actions g k (traced run) d (w, []) = ((w', tr), r) \<Longrightarrow>
   update_actions g k run d w = (w', r)"
  using run_plan_traced_same [of g run "updateCtx_of k d" "Id d" "code_plan d" w "[]"]
  by (simp add: update_actions_plan)

lemma validate_datastore_Nil:
  "validate_datastore allowed c = [] \<longleftrightarrow> (\<forall>ds \<in> set (datastore c). ds_type ds = Clickhouse)"
  by (auto simp: validate_datastore_def datastore_type_ValidateFunc_def)





lemma sentinel_message_inj:
  "sentinel_message s cid sid = sentinel_message s' cid sid \<Longrightarrow> s = s'"
  by (cases s; cases s'; simp add: cluster_kind_def)

section \<open>Claims\<close>

subsection \<open>Create\<close>

text \<open>
  C1. For shard blocks whose sizes are not negative and sum to a Go \<open>int\<close>, and whose
  WAL volumes the helper reads, the create path (lines 853-890) returns the descriptors
  of the first shard, then those of the second, and so on in the declared order: for each
  shard as many copies as its size of the one descriptor that carries the shard's
  flavor, volume, WAL volume (when given), network, availability zone and shard id and
  the keypair of the cluster. Their number is the sum of the sizes.
\<close>

theorem create_instances_grouped_by_shard:
  assumes "\<forall>sh \<in> set shs. 0 \<le> shard_size sh"
      and "sum_list (map shard_size shs) \<le> maxInt"
      and "\<forall>sh \<in> set shs. wal_ok ex sh"
  shows "\<exists>clusterInstances.
           create_instances ex kp shs = Returns clusterInstances \<and>
           clusterInstances =
             concat (map (\<lambda>sh. replicate (nat (shard_size sh)) (descriptor ex kp sh)) shs) \<and>
           int (length clusterInstances) = sum_list (map shard_size shs)"
proof -
  let ?ds = "concat (map (\<lambda>sh. replicate (nat (shard_size sh)) (descriptor ex kp sh)) shs)"
  have "create_instances ex kp shs = Returns ?ds"
    using assms by (rule create_instances_ok)
  moreover have "int (length ?ds) = sum_list (map shard_size shs)"
    using length_groups_zip [OF assms(1), of "descriptor ex kp"] by (simp only: groups_zip)
  ultimately show ?thesis by blast
qed

theorem create_instances_grouped_by_shard_witness:
  "0 \<le> shard_size shard_A \<and> 0 \<le> shard_size shard_B \<and>
   shard_size shard_A + shard_size shard_B \<le> maxInt \<and>
   wal_ok ex0 shard_A \<and> wal_ok ex0 shard_B \<and>
   create_instances ex0 ''key-1'' [shard_A, shard_B] =
     Returns [descriptor ex0 ''key-1'' shard_A, descriptor ex0 ''key-1'' shard_A,
              descriptor ex0 ''key-1'' shard_B] \<and>
   ShardID (descriptor ex0 ''key-1'' shard_A) = ''A'' \<and>
   Keypair (descriptor ex0 ''key-1'' shard_B) = ''key-1'' \<and>
   Walvolume (descriptor ex0 ''key-1'' shard_A) = Some \<lparr>WalSize = 5, WalVolumeType = ''ssd''\<rparr> \<and>
   Walvolume (descriptor ex0 ''key-1'' shard_B) = None"
proof -
  have sizes: "\<forall>sh \<in> set [shard_A, shard_B]. 0 \<le> shard_size sh"
    by (simp add: shard_A_def shard_B_def)
  have total: "sum_list (map shard_size [shard_A, shard_B]) \<le> maxInt"
    by (simp add: shard_A_def shard_B_def maxInt_def)
  have wal: "\<forall>sh \<in> set [shard_A, shard_B]. wal_ok ex0 sh"
    by (simp add: shard_A_def shard_B_def wal_ok_def ex0_def)
  have two: "nat (shard_size shard_A) = Suc (Suc 0)" and one: "nat (shard_size shard_B) = Suc 0"
    by (simp_all add: shard_A_def shard_B_def)
  show ?thesis
    using create_instances_grouped_by_shard [OF sizes total wal, of "''key-1''"] sizes total wal
    by (simp add: two one) (simp add: descriptor_def shard_A_def shard_B_def ex0_def)
qed




subsection \<open>Read\<close>

text \<open>
  C2. With the declared blocks B, A (in this order) and the remote shards A (two
  instances), B and C, the shard list that the read stores is A, B, C: the known shards
  come in ascending order of their ids, not in the declared order, and the shard A at
  index 0 receives the availability zone declared for B at index 0.
\<close>

theorem read_order_declared_B_A:
  "map shard_id
     (resourceDatabaseClusterWithShardsRead_shards (\<lambda>i w. w) [shard_B, shard_A] insts_ABC)
     = [''A'', ''B'', ''C''] \<and>
   map availability_zone
     (resourceDatabaseClusterWithShardsRead_shards (\<lambda>i w. w) [shard_B, shard_A] insts_ABC)
     = [''az-2'', ''az-1'', []] \<and>
   map shard_size
     (resourceDatabaseClusterWithShardsRead_shards (\<lambda>i w. w) [shard_B, shard_A] insts_ABC)
     = [2, 1, 1]"
  by (simp add: resourceDatabaseClusterWithShardsRead_shards_def read_shards_def ordered_shards_def
        flattenDatabaseClusterShards_def flattenDatabaseClusterShard_def
        getDatabaseClusterShardInstances_def insts_ABC_def shard_A_def shard_B_def
        overlay_shard_def enumerate_eq_zip net0_def)

text \<open>
  C6. Whatever the order in which the map of the grouped instances is walked, the shard
  list that the read stores has exactly the shard ids of the remote instances, each
  once, and the size of each shard is the number of remote instances with its id.
\<close>

theorem read_shards_match_remote:
  assumes "mset flattenedShards =
             mset (flattenDatabaseClusterShards (getDatabaseClusterShardInstances insts))"
  shows "set (map shard_id (read_shards walOverlay rawShards flattenedShards))
           = InstShardID ` set insts \<and>
         distinct (map shard_id (read_shards walOverlay rawShards flattenedShards)) \<and>
         (\<forall>sh \<in> set (read_shards walOverlay rawShards flattenedShards).
            shard_size sh =
              int (length (filter (\<lambda>inst. InstShardID inst = shard_id sh) insts)))"
proof (intro conjI)
  let ?F = "flattenDatabaseClusterShards (getDatabaseClusterShardInstances insts)"
  let ?R = "read_shards walOverlay rawShards flattenedShards"
  have ids: "mset (map shard_id ?R) = mset (remdups (map InstShardID insts))"
  proof -
    have "mset (map shard_id ?R) = mset (map shard_id (ordered_shards rawShards flattenedShards))"
      by (simp only: map_read_shards [where f = shard_id, OF overlay_shard_keeps(1)])
    also have "\<dots> = image_mset shard_id (mset flattenedShards)"
      by (simp add: mset_ordered_shards)
    also have "\<dots> = mset (map shard_id ?F)"
      by (simp add: assms)
    finally show ?thesis by (simp only: flattened_ids)
  qed
  from ids have "set (map shard_id ?R) = set (remdups (map InstShardID insts))"
    by (rule mset_eq_setD)
  then show "set (map shard_id ?R) = InstShardID ` set insts" by simp
  have "distinct (remdups (map InstShardID insts))" by simp
  then show "distinct (map shard_id ?R)"
    using ids by (metis mset_eq_imp_distinct_iff)
  let ?p = "\<lambda>sh. (shard_id sh, shard_size sh)"
  have pairs: "set (map ?p ?R) = set (map ?p ?F)"
  proof -
    have "mset (map ?p ?R) = mset (map ?p (ordered_shards rawShards flattenedShards))"
      by (simp only: map_read_shards [where f = ?p] overlay_shard_keeps)
    also have "\<dots> = image_mset ?p (mset flattenedShards)"
      by (simp add: mset_ordered_shards)
    also have "\<dots> = mset (map ?p ?F)"
      by (simp add: assms)
    finally show ?thesis by (rule mset_eq_setD)
  qed
  show "\<forall>sh \<in> set ?R.
           shard_size sh = int (length (filter (\<lambda>inst. InstShardID inst = shard_id sh) insts))"
  proof
    fix sh assume "sh \<in> set ?R"
    then have "?p sh \<in> set (map ?p ?R)" by simp
    then have "?p sh \<in> set (map ?p ?F)" by (simp only: pairs)
    then obtain fs where fs: "fs \<in> set ?F" and eq: "?p sh = ?p fs" by auto
    from flattened_sizes [OF fs] eq
    show "shard_size sh = int (length (filter (\<lambda>inst. InstShardID inst = shard_id sh) insts))"
      by simp
  qed
qed

theorem read_shards_match_remote_witness:
  "mset (rev (flattenDatabaseClusterShards (getDatabaseClusterShardInstances insts_ABC)))
     = mset (flattenDatabaseClusterShards (getDatabaseClusterShardInstances insts_ABC)) \<and>
   set (map shard_id
          (read_shards (\<lambda>i w. w) [shard_B, shard_A]
             (rev (flattenDatabaseClusterShards (getDatabaseClusterShardInstances insts_ABC)))))
     = {''A'', ''B'', ''C''} \<and>
   distinct (map shard_id
          (read_shards (\<lambda>i w. w) [shard_B, shard_A]
             (rev (flattenDatabaseClusterShards (getDatabaseClusterShardInstances insts_ABC))))) \<and>
   map (\<lambda>sh. (shard_id sh, shard_size sh))
          (read_shards (\<lambda>i w. w) [shard_B, shard_A]
             (rev (flattenDatabaseClusterShards (getDatabaseClusterShardInstances insts_ABC))))
     = [(''A'', 2), (''B'', 1), (''C'', 1)]"
proof -
  have perm: "mset (rev (flattenDatabaseClusterShards (getDatabaseClusterShardInstances insts_ABC)))
     = mset (flattenDatabaseClusterShards (getDatabaseClusterShardInstances insts_ABC))"
    by simp
  have ids: "InstShardID ` set insts_ABC = {''A'', ''B'', ''C''}"
    by (auto simp: insts_ABC_def)
  have val: "map (\<lambda>sh. (shard_id sh, shard_size sh))
          (read_shards (\<lambda>i w. w) [shard_B, shard_A]
             (rev (flattenDatabaseClusterShards (getDatabaseClusterShardInstances insts_ABC))))
     = [(''A'', 2), (''B'', 1), (''C'', 1)]"
    by (simp add: read_shards_def ordered_shards_def
        flattenDatabaseClusterShards_def flattenDatabaseClusterShard_def
        getDatabaseClusterShardInstances_def insts_ABC_def shard_A_def shard_B_def
        overlay_shard_def enumerate_eq_zip net0_def)
  show ?thesis
    using read_shards_match_remote [OF perm, of "\<lambda>i w. w" "[shard_B, shard_A]"] perm val
    by (simp only: ids)
qed

subsection \<open>Update\<close>

text \<open>
  C3. For a prior state and a desired configuration whose shard sizes fit, the actions
  that an update performs when none fails are those of \<open>plan\<close>: configuration attach,
  disk autoexpand, WAL disk autoexpand, capability application and monitoring toggle for
  the changed top-level fields, in this order, then for each shard in declared order
  volume resize, WAL volume resize, flavor resize and grow or shrink. In particular,
  when only \<open>configuration_id\<close>, \<open>capabilities\<close> and the size of one shard (an increase)
  change, the actions are attach configuration, apply capabilities, grow that shard.
\<close>

theorem update_order_fixed:
  assumes "sizes_fit d"
  shows "emitted d = plan d \<and>
         (configuration_id (prior d) \<noteq> configuration_id (planned d) \<and>
          capabilities (prior d) \<noteq> capabilities (planned d) \<and>
          disk_autoexpand (prior d) = disk_autoexpand (planned d) \<and>
          wal_disk_autoexpand (prior d) = wal_disk_autoexpand (planned d) \<and>
          cloud_monitoring_enabled (prior d) = cloud_monitoring_enabled (planned d) \<and>
          i < length (shard (planned d)) \<and>
          shard_size (prior_shard d i) < shard_size (shard (planned d) ! i) \<and>
          (\<forall>j < length (shard (planned d)).
             volume_size (prior_shard d j) = volume_size (shard (planned d) ! j) \<and>
             wal_volume (prior_shard d j) = wal_volume (shard (planned d) ! j) \<and>
             flavor_id (prior_shard d j) = flavor_id (shard (planned d) ! j) \<and>
             (j \<noteq> i \<longrightarrow> shard_size (prior_shard d j) = shard_size (shard (planned d) ! j)))
          \<longrightarrow> emitted d =
                [UpdateConfiguration, ApplyCapabilities, Grow (shard_id (shard (planned d) ! i))])"
proof
  show e: "emitted d = plan d" using assms by (rule emitted_plan)
  show "configuration_id (prior d) \<noteq> configuration_id (planned d) \<and>
          capabilities (prior d) \<noteq> capabilities (planned d) \<and>
          disk_autoexpand (prior d) = disk_autoexpand (planned d) \<and>
          wal_disk_autoexpand (prior d) = wal_disk_autoexpand (planned d) \<and>
          cloud_monitoring_enabled (prior d) = cloud_monitoring_enabled (planned d) \<and>
          i < length (shard (planned d)) \<and>
          shard_size (prior_shard d i) < shard_size (shard (planned d) ! i) \<and>
          (\<forall>j < length (shard (planned d)).
             volume_size (prior_shard d j) = volume_size (shard (planned d) ! j) \<and>
             wal_volume (prior_shard d j) = wal_volume (shard (planned d) ! j) \<and>
             flavor_id (prior_shard d j) = flavor_id (shard (planned d) ! j) \<and>
             (j \<noteq> i \<longrightarrow> shard_size (prior_shard d j) = shard_size (shard (planned d) ! j)))
          \<longrightarrow> emitted d =
                [UpdateConfiguration, ApplyCapabilities, Grow (shard_id (shard (planned d) ! i))]"
  proof
    assume h: "configuration_id (prior d) \<noteq> configuration_id (planned d) \<and>
          capabilities (prior d) \<noteq> capabilities (planned d) \<and>
          disk_autoexpand (prior d) = disk_autoexpand (planned d) \<and>
          wal_disk_autoexpand (prior d) = wal_disk_autoexpand (planned d) \<and>
          cloud_monitoring_enabled (prior d) = cloud_monitoring_enabled (planned d) \<and>
          i < length (shard (planned d)) \<and>
          shard_size (prior_shard d i) < shard_size (shard (planned d) ! i) \<and>
          (\<forall>j < length (shard (planned d)).
             volume_size (prior_shard d j) = volume_size (shard (planned d) ! j) \<and>
             wal_volume (prior_shard d j) = wal_volume (shard (planned d) ! j) \<and>
             flavor_id (prior_shard d j) = flavor_id (shard (planned d) ! j) \<and>
             (j \<noteq> i \<longrightarrow> shard_size (prior_shard d j) = shard_size (shard (planned d) ! j)))"
    then have i: "i < length (shard (planned d))" by simp
    have others: "shard_plan (prior_shard d j) (shard (planned d) ! j) = []"
      if "j < length (shard (planned d))" "j \<noteq> i" for j
      using h that by (simp add: shard_plan_def size_plan_def)
    have this_one: "shard_plan (prior_shard d i) (shard (planned d) ! i)
                      = [Grow (shard_id (shard (planned d) ! i))]"
      using h by (simp add: shard_plan_def size_plan_def)
    have top: "top_plan (prior d) (planned d) = [UpdateConfiguration, ApplyCapabilities]"
      using h by (simp add: top_plan_def)
    have "plan d = top_plan (prior d) (planned d) @
                     shard_plan (prior_shard d i) (shard (planned d) ! i)"
      by (rule plan_single_shard [OF i]) (rule others)
    then show "emitted d =
                [UpdateConfiguration, ApplyCapabilities, Grow (shard_id (shard (planned d) ! i))]"
      unfolding e top this_one by simp
  qed
qed

theorem update_order_fixed_witness:
  "sizes_fit d01 \<and> emitted d01 = [UpdateConfiguration, ApplyCapabilities, Grow ''B'']"
proof -
  have fit: "sizes_fit d01"
    by (simp add: sizes_fit_def d01_def cfg0_def cfg1_def shard_A_def shard_B_def)
  have "plan d01 = [UpdateConfiguration, ApplyCapabilities, Grow ''B'']"
    by (simp add: plan_def d01_def cfg0_def cfg1_def top_plan_def shard_plan_def size_plan_def
       prior_shard_def shard_A_def shard_B_def enumerate_eq_zip)
  then show ?thesis
    using update_order_fixed [OF fit, of 1] fit by simp
qed

text \<open>
  C9. The \<open>DiffSuppressFunc\<close> of \<open>shrink_options\<close> suppresses every difference of that
  field. When the desired configuration differs from the prior state only in the
  \<open>shrink_options\<close> of its shards, an update performs no action at all and goes straight
  to the closing read. The sequence of actions of any update does not depend on the
  \<open>shrink_options\<close> of the desired shards: the sequencer never reads them.
\<close>

theorem shrink_options_change_plans_nothing:
  assumes "length optss = length (shard c)"
      and "length optss' = length (shard (planned d))"
  shows "shrink_options_DiffSuppressFunc key old new rd \<and>
         attempted g k run
           \<lparr>Id = cid, prior = c, planned = c\<lparr>shard := set_shrink_options optss (shard c)\<rparr>,
            timeouts = t\<rparr> w = [] \<and>
         resourceDatabaseClusterWithShardsUpdate g k run cl
           \<lparr>Id = cid, prior = c, planned = c\<lparr>shard := set_shrink_options optss (shard c)\<rparr>,
            timeouts = t\<rparr> w
           = ReadResource cl
               \<lparr>Id = cid, prior = c, planned = c\<lparr>shard := set_shrink_options optss (shard c)\<rparr>,
                timeouts = t\<rparr> w \<and>
         emitted (d\<lparr>planned := (planned d)\<lparr>shard := set_shrink_options optss' (shard (planned d))\<rparr>\<rparr>)
           = emitted d"
proof -
  let ?d = "\<lparr>Id = cid, prior = c, planned = c\<lparr>shard := set_shrink_options optss (shard c)\<rparr>,
            timeouts = t\<rparr>"
  have none: "code_plan ?d = []" using assms(1) by (rule code_plan_only_shrink_options)
  have a: "attempted g k run ?d w = []"
    unfolding attempted_run_plan none by simp
  have b: "resourceDatabaseClusterWithShardsUpdate g k run cl ?d w = ReadResource cl ?d w"
    unfolding resourceDatabaseClusterWithShardsUpdate_def update_actions_plan none by simp
  have e: "emitted (d\<lparr>planned := (planned d)\<lparr>shard := set_shrink_options optss' (shard (planned d))\<rparr>\<rparr>)
           = emitted d"
    unfolding emitted_code_plan using assms(2) by (rule code_plan_shrink_options)
  show ?thesis using a b e by (simp add: shrink_options_DiffSuppressFunc_def)
qed

theorem shrink_options_change_plans_nothing_witness:
  "length [[''i-1''], [''i-2'', ''i-3'']] = length (shard cfg0) \<and>
   length [[''i-9''], []] = length (shard (planned d01)) \<and>
   set_shrink_options [[''i-1''], [''i-2'', ''i-3'']] (shard cfg0)
     = [shard_A\<lparr>shrink_options := [''i-1'']\<rparr>, shard_B\<lparr>shrink_options := [''i-2'', ''i-3'']\<rparr>] \<and>
   attempted g0 k0 run_fail_grow
     \<lparr>Id = ''c-1'', prior = cfg0,
      planned = cfg0\<lparr>shard := set_shrink_options [[''i-1''], [''i-2'', ''i-3'']] (shard cfg0)\<rparr>,
      timeouts = budgets0\<rparr> [] = [] \<and>
   emitted (d01\<lparr>planned := (planned d01)\<lparr>shard := set_shrink_options [[''i-9''], []] (shard (planned d01))\<rparr>\<rparr>)
     = [UpdateConfiguration, ApplyCapabilities, Grow ''B'']"
proof -
  have l1: "length [[''i-1''], [''i-2'', ''i-3'']] = length (shard cfg0)"
    by (simp add: cfg0_def)
  have l2: "length [[''i-9''], []] = length (shard (planned d01))"
    by (simp add: d01_def cfg1_def)
  have s: "set_shrink_options [[''i-1''], [''i-2'', ''i-3'']] (shard cfg0)
     = [shard_A\<lparr>shrink_options := [''i-1'']\<rparr>, shard_B\<lparr>shrink_options := [''i-2'', ''i-3'']\<rparr>]"
    by (simp add: set_shrink_options_def cfg0_def)
  have e: "emitted d01 = [UpdateConfiguration, ApplyCapabilities, Grow ''B'']"
    by (simp add: emitted_code_plan code_plan_def d01_def cfg0_def cfg1_def top_plan_def
          code_shard_plan_def code_size_plan_def sizeChange_def wrap64_def
          prior_shard_def shard_A_def shard_B_def enumerate_eq_zip)
  show ?thesis
    using shrink_options_change_plans_nothing [OF l1 l2, where g = g0 and k = k0
        and run = run_fail_grow and cid = "''c-1''" and t = budgets0 and w = "[]"] l1 l2 s e
    by simp
qed

text \<open>
  C5. An update stops at the first action that returns an error: the calls it makes are
  the actions of the update up to the failing one, all before it having succeeded, and no
  later action is attempted. It then returns exactly one diagnostic, whose text is the
  error's text in which the text of the base sentinel is replaced by that sentinel's
  message; for a sentinel outside \<open>shard_sentinels\<close> the diagnostic is the same whatever
  shard the failing action belongs to. The message of every listed sentinel names the
  cluster id. The messages of the sixteen sentinels of single operations carry the words
  of their operation (\<open>operation_words\<close>), and two sentinels with the same message are the
  same; the messages of the eight sentinels of \<open>shard_sentinels\<close> name the shard id as
  well, and those of the eleven others do not depend on the shard id. The three sentinels
  of \<open>generic_sentinels\<close>, and only they, have no words of an operation: their messages
  are fixed texts around the cluster id. What follows the sentinel's text in a wrapping
  error is kept; an error that is no listed sentinel keeps its own text.
\<close>

theorem update_stops_at_first_error:
  "(case update_actions g k (traced run) d (w, []) of
      ((w', tr), None) \<Rightarrow>
        tr = map (\<lambda>a. (updateCtx_of k d, a, None)) (emitted d) \<and>
        update_actions g k run d w = (w', None) \<and>
        resourceDatabaseClusterWithShardsUpdate g k run cl d w = ReadResource cl d w'
    | ((w', tr), Some ds) \<Rightarrow>
        (\<exists>n err.
           n < length (emitted d) \<and>
           tr = map (\<lambda>a. (updateCtx_of k d, a, None)) (take n (emitted d)) @
                  [(updateCtx_of k d, emitted d ! n, Some err)] \<and>
           ds = [\<lparr>severity = Error,
                  summary = Sprintf g (errMsg_of g err (Id d) (shard_of (emitted d ! n)))\<rparr>] \<and>
           (\<forall>gs. err = Sentinel gs \<and> gs \<notin> shard_sentinels \<longrightarrow>
                   ds = [\<lparr>severity = Error,
                          summary = Sprintf g (sentinel_message gs (Id d) [])\<rparr>]) \<and>
           update_actions g k run d w = (w', Some ds) \<and>
           resourceDatabaseClusterWithShardsUpdate g k run cl d w = (w', ds))) \<and>
   errMsg_of g (Sentinel s) cid sid = sentinel_message s cid sid \<and>
   errMsg_of g (Wrapped (sentinel_text g s @ cause) (Sentinel s)) cid sid
     = sentinel_message s cid sid @ cause \<and>
   errMsg_of g (Plain t) cid sid = t \<and>
   sublist cid (sentinel_message s cid sid) \<and>
   (s \<in> shard_sentinels \<longrightarrow> sublist sid (sentinel_message s cid sid)) \<and>
   (s \<notin> shard_sentinels \<longrightarrow> sentinel_message s cid sid = sentinel_message s cid sid') \<and>
   (\<forall>ws. operation_words s = Some ws \<longrightarrow> sublist ws (sentinel_message s cid sid)) \<and>
   (sentinel_message s cid sid = sentinel_message s' cid sid \<longrightarrow> s = s') \<and>
   (operation_words s = None \<longleftrightarrow> s \<in> generic_sentinels) \<and>
   sentinel_message errDBClusterNotFound cid sid
     = ''error retrieving vkcs_db_cluster_with_shards '' @ cid \<and>
   sentinel_message errDBClusterShardNotFound cid sid
     = ''unable to extract shard from vkcs_db_cluster_with_shards '' @ cid \<and>
   sentinel_message errDBClusterUpdateWait cid sid
     = ''error waiting for vkcs_db_cluster_with_shards '' @ cid @ '' to become ready''"
proof -
  obtain w' tr r where res: "update_actions g k (traced run) d (w, []) = ((w', tr), r)"
    by (metis surj_pair)
  have plain: "update_actions g k run d w = (w', r)"
    using res by (rule update_actions_traced_same)
  have log: "run_plan g (traced run) (updateCtx_of k d) (Id d) (emitted d) (w, []) = ((w', tr), r)"
    using res by (simp add: update_actions_plan emitted_code_plan)
  have first: "(case ((w', tr), r) of
      ((w', tr), None) \<Rightarrow>
        tr = map (\<lambda>a. (updateCtx_of k d, a, None)) (emitted d) \<and>
        update_actions g k run d w = (w', None) \<and>
        resourceDatabaseClusterWithShardsUpdate g k run cl d w = ReadResource cl d w'
    | ((w', tr), Some ds) \<Rightarrow>
        (\<exists>n err.
           n < length (emitted d) \<and>
           tr = map (\<lambda>a. (updateCtx_of k d, a, None)) (take n (emitted d)) @
                  [(updateCtx_of k d, emitted d ! n, Some err)] \<and>
           ds = [\<lparr>severity = Error,
                  summary = Sprintf g (errMsg_of g err (Id d) (shard_of (emitted d ! n)))\<rparr>] \<and>
           (\<forall>gs. err = Sentinel gs \<and> gs \<notin> shard_sentinels \<longrightarrow>
                   ds = [\<lparr>severity = Error,
                          summary = Sprintf g (sentinel_message gs (Id d) [])\<rparr>]) \<and>
           update_actions g k run d w = (w', Some ds) \<and>
           resourceDatabaseClusterWithShardsUpdate g k run cl d w = (w', ds)))"
  proof (cases r)
    case None
    with run_plan_traced_log [OF log] plain show ?thesis
      by (simp add: resourceDatabaseClusterWithShardsUpdate_def)
  next
    case (Some ds)
    with run_plan_traced_log [OF log] obtain n err where
      n: "n < length (emitted d)" and
      tr: "tr = map (\<lambda>a. (updateCtx_of k d, a, None)) (take n (emitted d)) @
                  [(updateCtx_of k d, emitted d ! n, Some err)]" and
      ds0: "ds = databaseClusterWithShardsUpdateProcessError g err (Id d) (shard_of (emitted d ! n))"
      by auto
    have ds: "ds = [\<lparr>severity = Error,
                  summary = Sprintf g (errMsg_of g err (Id d) (shard_of (emitted d ! n)))\<rparr>]"
      using ds0 by (simp add: databaseClusterWithShardsUpdateProcessError_def diag_Error_def)
    have generic: "ds = [\<lparr>severity = Error, summary = Sprintf g (sentinel_message gs (Id d) [])\<rparr>]"
      if "err = Sentinel gs" "gs \<notin> shard_sentinels" for gs
      using that(1) sentinel_message_no_shard [OF that(2), of "Id d" "shard_of (emitted d ! n)" "[]"]
      by (simp add: ds errMsg_of_Sentinel)
    have rest: "update_actions g k run d w = (w', Some ds)"
      "resourceDatabaseClusterWithShardsUpdate g k run cl d w = (w', ds)"
      using plain Some by (simp_all add: resourceDatabaseClusterWithShardsUpdate_def)
    have "n < length (emitted d) \<and>
           tr = map (\<lambda>a. (updateCtx_of k d, a, None)) (take n (emitted d)) @
                  [(updateCtx_of k d, emitted d ! n, Some err)] \<and>
           ds = [\<lparr>severity = Error,
                  summary = Sprintf g (errMsg_of g err (Id d) (shard_of (emitted d ! n)))\<rparr>] \<and>
           (\<forall>gs. err = Sentinel gs \<and> gs \<notin> shard_sentinels \<longrightarrow>
                   ds = [\<lparr>severity = Error,
                          summary = Sprintf g (sentinel_message gs (Id d) [])\<rparr>]) \<and>
           update_actions g k run d w = (w', Some ds) \<and>
           resourceDatabaseClusterWithShardsUpdate g k run cl d w = (w', ds)"
      using n tr ds generic rest by blast
    then show ?thesis unfolding Some by (simp del: ex_simps) blast
  qed
  have t1: "s \<in> shard_sentinels \<longrightarrow> sublist sid (sentinel_message s cid sid)"
    using sentinel_message_shard by blast
  have t2: "s \<notin> shard_sentinels \<longrightarrow> sentinel_message s cid sid = sentinel_message s cid sid'"
    using sentinel_message_no_shard by blast
  have t3: "\<forall>ws. operation_words s = Some ws \<longrightarrow> sublist ws (sentinel_message s cid sid)"
    using sentinel_message_words by blast
  have t4: "sentinel_message s cid sid = sentinel_message s' cid sid \<longrightarrow> s = s'"
    using sentinel_message_inj by blast
  show ?thesis
    unfolding res
    by (intro conjI)
       (rule first errMsg_of_Sentinel errMsg_of_Wrapped errMsg_of_Plain sentinel_message_cluster
          t1 t2 t3 t4 operation_words_None generic_messages)+
qed

theorem update_stops_at_first_error_witness:
  "update_actions g0 k0 (traced run_fail_grow) d01 ([], []) =
     (([UpdateConfiguration, ApplyCapabilities, Grow ''B''],
       [(updateCtx_of k0 d01, UpdateConfiguration, None),
        (updateCtx_of k0 d01, ApplyCapabilities, None),
        (updateCtx_of k0 d01, Grow ''B'', Some (Sentinel errDBClusterUpdateWait))]),
      Some [\<lparr>severity = Error,
             summary = ''error waiting for vkcs_db_cluster_with_shards c-1 to become ready''\<rparr>]) \<and>
   errDBClusterActionGrow \<in> shard_sentinels \<and>
   sublist ''B'' (sentinel_message errDBClusterActionGrow ''c-1'' ''B'') \<and>
   sublist ''c-1'' (sentinel_message errDBClusterActionGrow ''c-1'' ''B'') \<and>
   operation_words errDBClusterActionGrow = Some ''growing shard'' \<and>
   sublist ''growing shard'' (sentinel_message errDBClusterActionGrow ''c-1'' ''B'') \<and>
   errDBClusterUpdateWait \<notin> shard_sentinels \<and>
   errDBClusterUpdateWait \<in> generic_sentinels \<and>
   sentinel_message errDBClusterUpdateWait ''c-1'' ''B''
     = sentinel_message errDBClusterUpdateWait ''c-1'' ''A''"
proof -
  have run: "update_actions g0 k0 (traced run_fail_grow) d01 ([], []) =
     (([UpdateConfiguration, ApplyCapabilities, Grow ''B''],
       [(updateCtx_of k0 d01, UpdateConfiguration, None),
        (updateCtx_of k0 d01, ApplyCapabilities, None),
        (updateCtx_of k0 d01, Grow ''B'', Some (Sentinel errDBClusterUpdateWait))]),
      Some [\<lparr>severity = Error,
             summary = ''error waiting for vkcs_db_cluster_with_shards c-1 to become ready''\<rparr>])"
    by (simp add: update_actions_plan d01_code_plan call_action_traced run_fail_grow_def
          databaseClusterWithShardsUpdateProcessError_def
          errMsg_of_Sentinel diag_Error_def cluster_kind_def)
       (simp add: g0_def d01_def)
  have mem: "errDBClusterActionGrow \<in> shard_sentinels"
    "errDBClusterUpdateWait \<notin> shard_sentinels" "errDBClusterUpdateWait \<in> generic_sentinels"
    by (simp_all add: shard_sentinels_def generic_sentinels_def)
  have words: "operation_words errDBClusterActionGrow = Some ''growing shard''"
    by simp
  have grow: "sublist ''B'' (sentinel_message errDBClusterActionGrow ''c-1'' ''B'') \<and>
      sublist ''c-1'' (sentinel_message errDBClusterActionGrow ''c-1'' ''B'') \<and>
      sublist ''growing shard'' (sentinel_message errDBClusterActionGrow ''c-1'' ''B'')"
    using update_stops_at_first_error [where g = g0 and k = k0 and run = run_fail_grow
        and d = d01 and w = "[]" and s = errDBClusterActionGrow and cid = "''c-1''"
        and sid = "''B''"] mem words
    by blast
  have wait: "sentinel_message errDBClusterUpdateWait ''c-1'' ''B''
                = sentinel_message errDBClusterUpdateWait ''c-1'' ''A''"
    by simp
  show ?thesis using run mem words grow wait by blast
qed

text \<open>
  The claim as stated fails: when growing shard B fails with the sentinel of the wait,
  the one diagnostic names the cluster and neither the shard nor the action.
\<close>

theorem update_diagnostic_without_shard_counterexample:
  "resourceDatabaseClusterWithShardsUpdate g0 k0 run_fail_grow cloud_idle d01 [] =
     ([UpdateConfiguration, ApplyCapabilities, Grow ''B''],
      [\<lparr>severity = Error,
        summary = ''error waiting for vkcs_db_cluster_with_shards c-1 to become ready''\<rparr>]) \<and>
   \<not> sublist ''B'' ''error waiting for vkcs_db_cluster_with_shards c-1 to become ready'' \<and>
   \<not> sublist ''grow'' ''error waiting for vkcs_db_cluster_with_shards c-1 to become ready''"
proof -
  have run: "resourceDatabaseClusterWithShardsUpdate g0 k0 run_fail_grow cloud_idle d01 [] =
     ([UpdateConfiguration, ApplyCapabilities, Grow ''B''],
      [\<lparr>severity = Error,
        summary = ''error waiting for vkcs_db_cluster_with_shards c-1 to become ready''\<rparr>])"
    by (simp add: resourceDatabaseClusterWithShardsUpdate_def update_actions_plan d01_code_plan
          call_action_def run_fail_grow_def databaseClusterWithShardsUpdateProcessError_def
          errMsg_of_Sentinel diag_Error_def cluster_kind_def)
       (simp add: g0_def d01_def)
  have b: "\<not> sublist ''B'' ''error waiting for vkcs_db_cluster_with_shards c-1 to become ready''"
    by (simp add: sublist_Cons_right)
  have g: "\<not> sublist ''grow'' ''error waiting for vkcs_db_cluster_with_shards c-1 to become ready''"
    by (simp add: sublist_Cons_right)
  show ?thesis using run b g by blast
qed





subsection \<open>Waits and validation\<close>

text \<open>
  C8. The one wait that a create makes after a successful \<open>clusters.Create\<close> is
  configured with the create budget, and the one wait that a delete makes after a
  successful \<open>clusters.Delete\<close> with the delete budget; neither makes a wait with another
  timeout. The resource declares no update timeout: the one wait configuration of an
  update carries the create budget as well, and every action of the update is handed that
  same configuration, whatever actions ran before it.
\<close>

theorem waits_use_declared_budgets:
  "Timeout (create_stateConf k d clusterID checkCapabilities) = timeouts d TimeoutCreate \<and>
   Timeout (delete_stateConf k d) = timeouts d TimeoutDelete \<and>
   Timeout (update_stateConf k d) = timeouts d TimeoutCreate \<and>
   resource_Timeouts k TimeoutCreate = Some (dbCreateTimeout k) \<and>
   resource_Timeouts k TimeoutDelete = Some (dbDeleteTimeout k) \<and>
   resource_Timeouts k TimeoutUpdate = None \<and>
   (\<forall>c \<in> set (attempted g k run d w).
      StateConf (fst c) = update_stateConf k d \<and>
      Timeout (StateConf (fst c)) = timeouts d TimeoutCreate) \<and>
   (\<forall>createOpts caps wc1 cid.
      createOpts_of ex d = Returns (createOpts, caps) \<and>
      clusters_Create cl createOpts wc = (wc1, Inr cid) \<longrightarrow>
        waits_of_create ex k cl d wc = [create_stateConf k d cid caps]) \<and>
   (\<forall>conf \<in> set (waits_of_create ex k cl d wc). Timeout conf = timeouts d TimeoutCreate) \<and>
   (\<forall>wd1. clusters_Delete cl' (Id d) wd = (wd1, None) \<longrightarrow>
      waits_of_delete k cl' d wd = [delete_stateConf k d]) \<and>
   (\<forall>conf \<in> set (waits_of_delete k cl' d wd). Timeout conf = timeouts d TimeoutDelete)"
proof -
  have upd: "\<forall>c \<in> set (attempted g k run d w).
      StateConf (fst c) = update_stateConf k d \<and>
      Timeout (StateConf (fst c)) = timeouts d TimeoutCreate"
  proof
    fix c assume "c \<in> set (attempted g k run d w)"
    from attempted_context [OF this]
    show "StateConf (fst c) = update_stateConf k d \<and>
          Timeout (StateConf (fst c)) = timeouts d TimeoutCreate"
      by (simp add: updateCtx_of_def update_stateConf_def)
  qed
  have c1: "\<forall>createOpts caps wc1 cid.
      createOpts_of ex d = Returns (createOpts, caps) \<and>
      clusters_Create cl createOpts wc = (wc1, Inr cid) \<longrightarrow>
        waits_of_create ex k cl d wc = [create_stateConf k d cid caps]"
    by (intro allI impI, elim conjE) (rule waits_of_create_ok)
  have c2: "\<forall>conf \<in> set (waits_of_create ex k cl d wc). Timeout conf = timeouts d TimeoutCreate"
    by (intro ballI) (rule waits_of_create_budget)
  have d1: "\<forall>wd1. clusters_Delete cl' (Id d) wd = (wd1, None) \<longrightarrow>
      waits_of_delete k cl' d wd = [delete_stateConf k d]"
    by (intro allI impI) (rule waits_of_delete_ok)
  have d2: "\<forall>conf \<in> set (waits_of_delete k cl' d wd). Timeout conf = timeouts d TimeoutDelete"
    by (intro ballI) (rule waits_of_delete_budget)
  have fields: "Timeout (create_stateConf k d clusterID checkCapabilities) = timeouts d TimeoutCreate"
    "Timeout (delete_stateConf k d) = timeouts d TimeoutDelete"
    "Timeout (update_stateConf k d) = timeouts d TimeoutCreate"
    "resource_Timeouts k TimeoutCreate = Some (dbCreateTimeout k)"
    "resource_Timeouts k TimeoutDelete = Some (dbDeleteTimeout k)"
    "resource_Timeouts k TimeoutUpdate = None"
    by (simp_all add: create_stateConf_def delete_stateConf_def update_stateConf_def
          resource_Timeouts_def)
  show ?thesis
    by (intro conjI) (rule fields upd c1 c2 d1 d2)+
qed

theorem waits_use_declared_budgets_witness:
  "map (\<lambda>c. (fst (snd c), Timeout (StateConf (fst c)))) (attempted g0 k0 run_fail_grow d01 [])
     = [(UpdateConfiguration, 2400), (ApplyCapabilities, 2400), (Grow ''B'', 2400)] \<and>
   timeouts d01 TimeoutCreate = 2400 \<and>
   Timeout (delete_stateConf k0 d01) = 600 \<and>
   map Timeout (waits_of_create ex0 k0 cloud_log d01 []) = [2400] \<and>
   fst (resourceDatabaseClusterWithShardsCreate ex0 k0 cloud_log d01 [])
     = [''clusters.Create'', ''WaitForStateContext'', ''AttachConfigurationGroup'', ''Read''] \<and>
   map Timeout (waits_of_delete k0 cloud_log d01 []) = [600] \<and>
   fst (resourceDatabaseClusterWithShardsDelete k0 cloud_log d01 [])
     = [''clusters.Delete'', ''WaitForStateContext'']"
proof -
  have tr: "attempted g0 k0 run_fail_grow d01 [] =
       [(updateCtx_of k0 d01, UpdateConfiguration, None),
        (updateCtx_of k0 d01, ApplyCapabilities, None),
        (updateCtx_of k0 d01, Grow ''B'', Some (Sentinel errDBClusterUpdateWait))]"
    by (simp add: attempted_run_plan d01_code_plan call_action_traced run_fail_grow_def)
  have b: "timeouts d01 TimeoutCreate = 2400" "timeouts d01 TimeoutDelete = 600"
    by (simp_all add: d01_def budgets0_def)
  have sizes: "\<forall>sh \<in> set (shard (planned d01)). 0 \<le> shard_size sh"
    by (simp add: d01_def cfg1_def cfg0_def shard_A_def shard_B_def)
  have total: "sum_list (map shard_size (shard (planned d01))) \<le> maxInt"
    by (simp add: d01_def cfg1_def cfg0_def shard_A_def shard_B_def maxInt_def)
  have ok: "extract_ok ex0 (planned d01)"
    by (simp add: extract_ok_def head_ok_def wal_ok_def d01_def cfg1_def cfg0_def ex0_def
          shard_A_def shard_B_def)
  from createOpts_of_ok [OF sizes total ok] obtain createOpts caps where
    r: "createOpts_of ex0 d01 = Returns (createOpts, caps)" by blast
  have cr: "clusters_Create cloud_log createOpts [] = ([''clusters.Create''], Inr ''c-1'')"
    by (simp add: cloud_log_def)
  have de: "clusters_Delete cloud_log (Id d01) [] = ([''clusters.Delete''], None)"
    by (simp add: cloud_log_def)
  have calls: "fst (resourceDatabaseClusterWithShardsCreate ex0 k0 cloud_log d01 [])
     = [''clusters.Create'', ''WaitForStateContext'', ''AttachConfigurationGroup'', ''Read'']"
    by (simp add: resourceDatabaseClusterWithShardsCreate_def r create_remote_def
          create_wait_attach_read_def cloud_log_def)
       (simp add: d01_def cfg1_def)
  have dcalls: "fst (resourceDatabaseClusterWithShardsDelete k0 cloud_log d01 [])
     = [''clusters.Delete'', ''WaitForStateContext'']"
    by (simp add: resourceDatabaseClusterWithShardsDelete_def cloud_log_def)
  show ?thesis
    using waits_use_declared_budgets [where g = g0 and k = k0 and run = run_fail_grow
        and d = d01 and w = "[]" and ex = ex0 and cl = cloud_log and wc = "[]"
        and cl' = cloud_log and wd = "[]"] b r cr de calls dcalls
    by (simp add: tr create_stateConf_def delete_stateConf_def)
qed

text \<open>
  The claim as stated fails: with a create budget of 2400 and an update budget of 1200,
  the wait configuration of an update has the timeout 2400.
\<close>

theorem update_wait_budget_counterexample:
  "Timeout (update_stateConf k0 d01) = 2400 \<and>
   timeouts d01 TimeoutCreate = 2400 \<and>
   timeouts d01 TimeoutUpdate = 1200 \<and>
   resource_Timeouts k0 TimeoutUpdate = None"
  by (simp add: update_stateConf_def d01_def budgets0_def resource_Timeouts_def)

text \<open>
  C10. The \<open>ValidateFunc\<close> of the datastore type returns no warning, and no error exactly
  for the value "clickhouse". A configuration with a datastore block of another type is
  stopped by the validation with an error and the world untouched, before the create
  path runs; a configuration whose datastore blocks all have the type "clickhouse"
  goes on to the create path.
\<close>

theorem datastore_type_must_be_clickhouse:
  "fst (datastore_type_ValidateFunc allowed v key) = [] \<and>
   (snd (datastore_type_ValidateFunc allowed v key) = [] \<longleftrightarrow> v = ''clickhouse'') \<and>
   ((\<exists>ds \<in> set (datastore (planned d)). ds_type ds \<noteq> ''clickhouse'') \<longrightarrow>
      (\<exists>es. es \<noteq> [] \<and> validated_create allowed ex k cl d w = (w, Fails es))) \<and>
   ((\<forall>ds \<in> set (datastore (planned d)). ds_type ds = ''clickhouse'') \<longrightarrow>
      validated_create allowed ex k cl d w = resourceDatabaseClusterWithShardsCreate ex k cl d w)"
proof -
  have a: "fst (datastore_type_ValidateFunc allowed v key) = []"
    and b: "snd (datastore_type_ValidateFunc allowed v key) = [] \<longleftrightarrow> v = ''clickhouse''"
    by (simp_all add: datastore_type_ValidateFunc_def Clickhouse_def)
  have c: "\<exists>es. es \<noteq> [] \<and> validated_create allowed ex k cl d w = (w, Fails es)"
    if "\<exists>ds \<in> set (datastore (planned d)). ds_type ds \<noteq> ''clickhouse''"
  proof -
    from that have "validate_datastore allowed (planned d) \<noteq> []"
      by (simp add: validate_datastore_Nil Clickhouse_def)
    then obtain e es where "validate_datastore allowed (planned d) = e # es"
      by (cases "validate_datastore allowed (planned d)") auto
    then have "validated_create allowed ex k cl d w
                 = (w, Fails (concat (map diag_Error (e # es))))"
      by (simp add: validated_create_def)
    moreover have "concat (map diag_Error (e # es)) \<noteq> []"
      by (simp add: diag_Error_def)
    ultimately show ?thesis by blast
  qed
  have e: "validated_create allowed ex k cl d w = resourceDatabaseClusterWithShardsCreate ex k cl d w"
    if "\<forall>ds \<in> set (datastore (planned d)). ds_type ds = ''clickhouse''"
  proof -
    from that have "validate_datastore allowed (planned d) = []"
      by (simp add: validate_datastore_Nil Clickhouse_def)
    then show ?thesis by (simp add: validated_create_def)
  qed
  show ?thesis using a b c e by blast
qed

theorem datastore_type_must_be_clickhouse_witness:
  "ds_type (hd (datastore (planned d_mysql))) = ''mysql'' \<and>
   validated_create ''[clickhouse]'' ex0 k0 cloud_log d_mysql [] =
     ([], Fails [\<lparr>severity = Error,
                  summary = ''datastore type must be [clickhouse], got: mysql''\<rparr>]) \<and>
   snd (datastore_type_ValidateFunc ''[clickhouse]'' ''clickhouse'' ''datastore.0.type'') = []"
proof -
  have v: "validated_create ''[clickhouse]'' ex0 k0 cloud_log d_mysql [] =
     ([], Fails [\<lparr>severity = Error,
                  summary = ''datastore type must be [clickhouse], got: mysql''\<rparr>])"
    by (simp add: validated_create_def validate_datastore_def datastore_type_ValidateFunc_def
          Clickhouse_def d_mysql_def diag_Error_def)
  have t: "ds_type (hd (datastore (planned d_mysql))) = ''mysql''"
    by (simp add: d_mysql_def)
  show ?thesis
    using datastore_type_must_be_clickhouse [where allowed = "''[clickhouse]''"
        and v = "''clickhouse''" and key = "''datastore.0.type''" and d = d_mysql and ex = ex0
        and k = k0 and cl = cloud_log and w = "[]"] v t
    by simp
qed

end
